theory Spec2Isabelle
  imports Complex_Main "HOL-Library.AList"
begin

section \<open>League dashboard: database operations and statistics pages\<close>

text \<open>
  The development embeds the two pages of the dashboard:
  \<^verbatim>\<open>pages_experimental/6_Database_operations.py\<close> (spreadsheet import and export) and
  \<^verbatim>\<open>pages_experimental/4_Statistics.py\<close> (match filtering and statistics display).
  Python exceptions are values of \<open>py_exn\<close>; a function that may raise returns
  \<open>py_exn + 'a\<close>, and one that also changes the database returns the database with it.
\<close>

datatype py_exn = KeyError | ValueError | AttributeError | ColumnNotFoundError | ComputeError

subsection \<open>Database tables\<close>

text \<open>
  One record per table row, with the columns the import writes. The database is the
  eight league tables, each a list of rows in insertion order.
\<close>

record season_row =
  season_id :: int
  season_name :: string

record division_row =
  division_id :: int
  division_name :: string
  division_leagueSeasonId :: int

record team_row =
  row_team_id :: int
  row_team_name :: string
  row_team_initials :: string

record team_division_row =
  td_leagueTeamId :: int
  td_leagueDivisionId :: int

record player_row =
  player_id :: int
  player_name :: string
  player_nicks :: "string set"

record player_team_row =
  pt_leaguePlayerId :: int
  pt_leagueTeamId :: int
  pt_active :: bool

type_synonym py_date = nat
type_synonym py_time = "nat \<times> nat \<times> nat"

record match_row =
  match_id :: int
  match_leagueDivisionId :: int
  match_matchday :: string
  match_gameNumber :: int
  match_date :: "py_date \<times> py_time"
  match_title :: string
  match_defwin :: int
  match_addRed :: int
  match_addBlue :: int
  match_replayURL :: string

record match_detail_row =
  md_leagueMatchId :: int
  md_leagueTeamId :: int
  md_startsRed :: bool
  md_home :: bool

record db =
  leagueseason :: "season_row list"
  leaguedivision :: "division_row list"
  leagueteam :: "team_row list"
  leagueteamdivisions :: "team_division_row list"
  leagueplayer :: "player_row list"
  leagueplayerteams :: "player_team_row list"
  leaguematch :: "match_row list"
  leaguematchdetail :: "match_detail_row list"

text \<open>
  The database schema is not part of the sources. Rows created without an id get the
  next id of their table, one more than the largest id present (1 in an empty table);
  \<open>delete_many(where={})\<close> empties the table it is called on and no other.
\<close>

definition next_id :: "int list \<Rightarrow> int" where
  "next_id ids = fold max ids 0 + 1"

definition with_ids :: "int list \<Rightarrow> 'a list \<Rightarrow> (int \<times> 'a) list" where
  "with_ids ids rows = zip (map (\<lambda>k. next_id ids + int k) [0..<length rows]) rows"

subsection \<open>The uploaded workbook\<close>

text \<open>
  A sheet is the list of its rows; \<open>None\<close> is a sheet that \<open>pd.read_excel\<close> cannot
  read (the sheet or a required column is absent), on which the call raises. A cell that
  may be empty (\<open>NaN\<close> in pandas) is an \<open>option\<close>.
\<close>

record teams_sheet_row =
  Teams_Division_name :: "string option"
  Teams_name :: string
  Teams_initials :: string

record players_sheet_row =
  Players_Player :: string
  Players_nicks :: "string option list"
  Players_Team :: "string option"
  Players_old_teams :: "string option list"

record matches_sheet_row =
  M_id :: int
  M_Division_name :: string
  M_Matchday :: string
  M_Game_number :: int
  M_Team1_name :: string
  M_Team2_name :: string
  M_Date :: py_date
  M_Time :: string
  M_Inverse :: int
  M_Defwin :: "int option"
  M_Add_red :: "int option"
  M_Add_blue :: "int option"
  M_Replay :: "string option"

record workbook =
  Season_sheet :: "string list option"
  Divisions_sheet :: "string list option"
  Teams_sheet :: "teams_sheet_row list option"
  Players_sheet :: "players_sheet_row list option"
  Matches_sheet :: "matches_sheet_row list option"

subsection \<open>Match titles\<close>

text \<open>\<open>str\<close> of a Python integer, as an f-string renders the game number.\<close>

definition digit_char :: "nat \<Rightarrow> char" where
  "digit_char d = char_of (48 + d)"

fun str_nat :: "nat \<Rightarrow> string" where
  "str_nat n = (if n < 10 then [digit_char n] else str_nat (n div 10) @ [digit_char (n mod 10)])"

declare str_nat.simps [simp del]

definition str_int :: "int \<Rightarrow> string" where
  "str_int i = (if i < 0 then CHR ''-'' # str_nat (nat (- i)) else str_nat (nat i))"

text \<open>
  \<open>str.isdigit\<close>: at least one character and every character a digit. Characters here
  are bytes, so the digits are \<open>0\<close> to \<open>9\<close>.
\<close>

definition isdigit :: "string \<Rightarrow> bool" where
  "isdigit s = (s \<noteq> [] \<and> list_all (\<lambda>c. c \<in> set ''0123456789'') s)"

definition get_title :: "matches_sheet_row \<Rightarrow> string" where
  "get_title match =
     (let md = M_Matchday match;
          game_nb = M_Game_number match;
          t1 = M_Team1_name match;
          t2 = M_Team2_name match
      in if isdigit md then ''MD '' @ md @ '' - '' @ t1 @ '' vs '' @ t2
         else if game_nb > 1 then md @ '' '' @ str_int game_nb @ '' - '' @ t1 @ '' vs '' @ t2
         else md @ '' - '' @ t1 @ '' vs '' @ t2)"

subsection \<open>The eight creation steps\<close>

text \<open>
  Every step reads its sheet, computes the rows and inserts them at its end (with one
  \<open>create_many\<close>, two for the player-team links), so a step that raises here leaves the
  database as it found it. A step returns the database and either the exception or its
  result. The exceptions are those of a sheet that cannot be read, of a name dictionary
  built from an empty table, of a Matches sheet that the filter leaves without a row, of a
  match whose division name matches no division and of a time that cannot be parsed.
\<close>

definition create_season :: "db \<Rightarrow> workbook \<Rightarrow> db \<times> (py_exn + season_row)" where
  "create_season d excel =
     (case Season_sheet excel of
        None \<Rightarrow> (d, Inl ValueError)
      | Some [] \<Rightarrow> (d, Inl KeyError)
      | Some (name # _) \<Rightarrow>
          (let season = \<lparr>season_id = next_id (map season_id (leagueseason d)), season_name = name\<rparr>
           in (d\<lparr>leagueseason := leagueseason d @ [season]\<rparr>, Inr season)))"

definition create_divisions :: "db \<Rightarrow> workbook \<Rightarrow> season_row \<Rightarrow> db \<times> (py_exn + int)" where
  "create_divisions d excel season =
     (case Divisions_sheet excel of
        None \<Rightarrow> (d, Inl ValueError)
      | Some names \<Rightarrow>
          (let data = map (\<lambda>(i, name). \<lparr>division_id = i, division_name = name,
                                          division_leagueSeasonId = season_id season\<rparr>)
                        (with_ids (map division_id (leaguedivision d)) names)
           in (d\<lparr>leaguedivision := leaguedivision d @ data\<rparr>, Inr (int (length data)))))"

definition create_teams :: "db \<Rightarrow> workbook \<Rightarrow> db \<times> (py_exn + int)" where
  "create_teams d excel =
     (case Teams_sheet excel of
        None \<Rightarrow> (d, Inl ValueError)
      | Some teams_df \<Rightarrow>
          (let data = map (\<lambda>(i, r). \<lparr>row_team_id = i, row_team_name = Teams_name r,
                                       row_team_initials = Teams_initials r\<rparr>)
                        (with_ids (map row_team_id (leagueteam d)) teams_df)
           in (d\<lparr>leagueteam := leagueteam d @ data\<rparr>, Inr (int (length data)))))"

text \<open>
  The name dictionaries: \<open>pd.DataFrame(rows).loc[:, ["id", "name"]]\<close> raises
  \<open>KeyError\<close> on a frame built from no rows, which has no columns; otherwise
  \<open>set_index("name").to_dict("dict")["id"]\<close> maps each name to the id of the last row
  that carries it.
\<close>

definition id_dict :: "(string \<times> int) list \<Rightarrow> py_exn + (string \<rightharpoonup> int)" where
  "id_dict rows = (if rows = [] then Inl KeyError else Inr (map_of (rev rows)))"

text \<open>\<open>d[x] if x in d.keys() else -1\<close>\<close>

definition lookup_id :: "(string \<rightharpoonup> int) \<Rightarrow> string \<Rightarrow> int" where
  "lookup_id dict x = (case dict x of Some i \<Rightarrow> i | None \<Rightarrow> - 1)"

text \<open>The same on a cell that may be empty: \<open>NaN\<close> is not a key.\<close>

definition lookup_cell :: "(string \<rightharpoonup> int) \<Rightarrow> string option \<Rightarrow> int" where
  "lookup_cell dict x = (case x of None \<Rightarrow> - 1 | Some s \<Rightarrow> lookup_id dict s)"

definition teams_dict_of :: "db \<Rightarrow> py_exn + (string \<rightharpoonup> int)" where
  "teams_dict_of d = id_dict (map (\<lambda>t. (row_team_name t, row_team_id t)) (leagueteam d))"

definition divisions_dict_of :: "db \<Rightarrow> py_exn + (string \<rightharpoonup> int)" where
  "divisions_dict_of d = id_dict (map (\<lambda>t. (division_name t, division_id t)) (leaguedivision d))"

definition players_dict_of :: "db \<Rightarrow> py_exn + (string \<rightharpoonup> int)" where
  "players_dict_of d = id_dict (map (\<lambda>t. (player_name t, player_id t)) (leagueplayer d))"

text \<open>
  The loop \<open>for k, v in series.items(): if k != -1 and v != -1: data_list.append(...)\<close>
  over the pairs (index, value) of a series.
\<close>

fun link_rows :: "(int \<Rightarrow> int \<Rightarrow> 'a) \<Rightarrow> (int \<times> int) list \<Rightarrow> 'a list \<Rightarrow> 'a list" where
  "link_rows mk [] data_list = data_list"
| "link_rows mk ((k, v) # items) data_list =
     (if k \<noteq> - 1 \<and> v \<noteq> - 1 then link_rows mk items (data_list @ [mk k v])
      else link_rows mk items data_list)"

definition team_division_links :: "(string \<rightharpoonup> int) \<Rightarrow> (string \<rightharpoonup> int) \<Rightarrow>
    teams_sheet_row list \<Rightarrow> team_division_row list" where
  "team_division_links teams_dict divisions_dict teams_df =
     link_rows (\<lambda>k v. \<lparr>td_leagueTeamId = k, td_leagueDivisionId = v\<rparr>)
       (map (\<lambda>r. (lookup_id teams_dict (Teams_name r),
                   lookup_cell divisions_dict (Teams_Division_name r))) teams_df) []"

definition create_team_divisions_relationship :: "db \<Rightarrow> workbook \<Rightarrow> db \<times> (py_exn + int)" where
  "create_team_divisions_relationship d excel =
     (case Teams_sheet excel of
        None \<Rightarrow> (d, Inl ValueError)
      | Some teams_df \<Rightarrow>
          (case teams_dict_of d of
             Inl e \<Rightarrow> (d, Inl e)
           | Inr teams_dict \<Rightarrow>
               (case divisions_dict_of d of
                  Inl e \<Rightarrow> (d, Inl e)
                | Inr divisions_dict \<Rightarrow>
                    (let data_list = team_division_links teams_dict divisions_dict teams_df
                     in (d\<lparr>leagueteamdivisions := leagueteamdivisions d @ data_list\<rparr>,
                         Inr (int (length data_list)))))))"

text \<open>
  \<open>create_players\<close>: the nick columns are turned into a dictionary keyed by player
  name (\<open>.T.to_dict("list")\<close>), so a name on several rows keeps the place of its first
  row and the nicks of its last. Empty nick cells are left out.
\<close>

definition nicks_records :: "players_sheet_row list \<Rightarrow> (string \<times> string option list) list" where
  "nicks_records players_df =
     fold (\<lambda>r acc. AList.update (Players_Player r) (Players_nicks r) acc) players_df []"

definition valid_nicks :: "string option list \<Rightarrow> string set" where
  "valid_nicks list_nicks = set (concat (map (\<lambda>nick. case nick of None \<Rightarrow> [] | Some s \<Rightarrow> [s]) list_nicks))"

definition create_players :: "db \<Rightarrow> workbook \<Rightarrow> db \<times> (py_exn + int)" where
  "create_players d excel =
     (case Players_sheet excel of
        None \<Rightarrow> (d, Inl ValueError)
      | Some players_df \<Rightarrow>
          (let data = map (\<lambda>(i, (name, list_nicks)).
                             \<lparr>player_id = i, player_name = name, player_nicks = valid_nicks list_nicks\<rparr>)
                        (with_ids (map player_id (leagueplayer d)) (nicks_records players_df))
           in (d\<lparr>leagueplayer := leagueplayer d @ data\<rparr>, Inr (int (length data)))))"

text \<open>
  \<open>create_team_players_relationship\<close>: the active links come from the column
  \<open>Team\<close>, the inactive ones from the columns whose name contains \<open>team\<close>, column
  by column. A row shorter than the widest one has empty cells there.
\<close>

definition old_team_cell :: "players_sheet_row \<Rightarrow> nat \<Rightarrow> string option" where
  "old_team_cell r j = (if j < length (Players_old_teams r) then Players_old_teams r ! j else None)"

definition old_team_columns :: "players_sheet_row list \<Rightarrow> nat" where
  "old_team_columns players_df = fold max (map (\<lambda>r. length (Players_old_teams r)) players_df) 0"

definition player_team_links_active :: "(string \<rightharpoonup> int) \<Rightarrow> (string \<rightharpoonup> int) \<Rightarrow>
    players_sheet_row list \<Rightarrow> player_team_row list" where
  "player_team_links_active players_dict teams_dict players_df =
     link_rows (\<lambda>k v. \<lparr>pt_leaguePlayerId = k, pt_leagueTeamId = v, pt_active = True\<rparr>)
       (map (\<lambda>r. (lookup_id players_dict (Players_Player r),
                   lookup_cell teams_dict (Players_Team r))) players_df) []"

definition player_team_links_inactive :: "(string \<rightharpoonup> int) \<Rightarrow> (string \<rightharpoonup> int) \<Rightarrow>
    players_sheet_row list \<Rightarrow> player_team_row list" where
  "player_team_links_inactive players_dict teams_dict players_df =
     fold (\<lambda>col data_list_inactive.
             link_rows (\<lambda>k v. \<lparr>pt_leaguePlayerId = k, pt_leagueTeamId = v, pt_active = False\<rparr>)
               (map (\<lambda>r. (lookup_id players_dict (Players_Player r),
                           lookup_cell teams_dict (old_team_cell r col))) players_df)
               data_list_inactive)
          [0..<old_team_columns players_df] []"

definition create_team_players_relationship :: "db \<Rightarrow> workbook \<Rightarrow> db \<times> (py_exn + int)" where
  "create_team_players_relationship d excel =
     (case Players_sheet excel of
        None \<Rightarrow> (d, Inl ValueError)
      | Some players_df \<Rightarrow>
          (case players_dict_of d of
             Inl e \<Rightarrow> (d, Inl e)
           | Inr players_dict \<Rightarrow>
               (case teams_dict_of d of
                  Inl e \<Rightarrow> (d, Inl e)
                | Inr teams_dict \<Rightarrow>
                    (let data_list_active = player_team_links_active players_dict teams_dict players_df;
                         d1 = d\<lparr>leagueplayerteams := leagueplayerteams d @ data_list_active\<rparr>;
                         data_list_inactive = player_team_links_inactive players_dict teams_dict players_df;
                         d2 = d1\<lparr>leagueplayerteams := leagueplayerteams d1 @ data_list_inactive\<rparr>
                     in (d2, Inr (int (length data_list_active) + int (length data_list_inactive)))))))"

text \<open>
  The Matches sheet, read by both match steps: the polars filter
  \<open>(pl.col("Team1_name") != "-") & (pl.col("Team2_name") != "-")\<close> keeps a row when
  both comparisons hold. Team names are text cells.
\<close>

definition filter_sentinel :: "matches_sheet_row list \<Rightarrow> matches_sheet_row list" where
  "filter_sentinel matches_df =
     filter (\<lambda>r. M_Team1_name r \<noteq> ''-'' \<and> M_Team2_name r \<noteq> ''-'') matches_df"

text \<open>
  Both match steps then compute the titles with \<open>matches_df.apply(get_title, axis=1)\<close> and
  assign them to the column \<open>Title\<close>. On a frame that the filter left without a row,
  \<open>apply\<close> gives a frame instead of a column, and the assignment raises \<open>ValueError\<close>.
\<close>

text \<open>\<open>fillna\<close> on the optional columns.\<close>

definition fillna :: "'a \<Rightarrow> 'a option \<Rightarrow> 'a" where
  "fillna v x = (case x of None \<Rightarrow> v | Some y \<Rightarrow> y)"

text \<open>
  \<open>left.merge(right, how="left", on=key)\<close>: every left row once for each right row with
  the same key, in the order of the right frame, and once with an empty right side when
  there is none.
\<close>

definition merge_left :: "('a \<Rightarrow> 'k) \<Rightarrow> ('b \<Rightarrow> 'k) \<Rightarrow> 'a list \<Rightarrow> 'b list \<Rightarrow> ('a \<times> 'b option) list" where
  "merge_left kl kr left right =
     concat (map (\<lambda>x. case filter (\<lambda>y. kr y = kl x) right of
                            [] \<Rightarrow> [(x, None)]
                          | ys \<Rightarrow> map (\<lambda>y. (x, Some y)) ys) left)"

text \<open>A list comprehension whose element expression may raise: the first exception wins.\<close>

fun comprehension :: "('a \<Rightarrow> py_exn + 'b) \<Rightarrow> 'a list \<Rightarrow> py_exn + 'b list" where
  "comprehension f [] = Inr []"
| "comprehension f (x # xs) =
     (case f x of
        Inl e \<Rightarrow> Inl e
      | Inr y \<Rightarrow> (case comprehension f xs of Inl e \<Rightarrow> Inl e | Inr ys \<Rightarrow> Inr (y # ys)))"

text \<open>
  One element of \<open>data_list\<close> in \<open>create_matches\<close>. \<open>int(x["Division_id"])\<close> raises
  \<open>ValueError\<close> on the \<open>NaN\<close> of a row whose division name matched no division;
  \<open>datetime.strptime\<close>, a parameter here, raises on a time it cannot parse.
\<close>

definition match_data :: "(string \<Rightarrow> py_exn + py_time) \<Rightarrow> matches_sheet_row \<times> division_row option
    \<Rightarrow> py_exn + match_row" where
  "match_data strptime xd =
     (case xd of (x, division) \<Rightarrow>
        (case division of
           None \<Rightarrow> Inl ValueError
         | Some dv \<Rightarrow>
             (case strptime (M_Time x) of
                Inl e \<Rightarrow> Inl e
              | Inr t \<Rightarrow>
                  Inr \<lparr>match_id = M_id x,
                       match_leagueDivisionId = division_id dv,
                       match_matchday = M_Matchday x,
                       match_gameNumber = M_Game_number x,
                       match_date = (M_Date x, t),
                       match_title = get_title x,
                       match_defwin = fillna 0 (M_Defwin x),
                       match_addRed = fillna 0 (M_Add_red x),
                       match_addBlue = fillna 0 (M_Add_blue x),
                       match_replayURL = fillna [] (M_Replay x)\<rparr>)))"

definition create_matches :: "(string \<Rightarrow> py_exn + py_time) \<Rightarrow> db \<Rightarrow> workbook \<Rightarrow> db \<times> (py_exn + int)" where
  "create_matches strptime d excel =
     (case Matches_sheet excel of
        None \<Rightarrow> (d, Inl ValueError)
      | Some sheet \<Rightarrow>
          (let matches_df = filter_sentinel sheet
           in if matches_df = [] then (d, Inl ValueError)
              else if leaguedivision d = [] then (d, Inl KeyError)
              else (case comprehension (match_data strptime)
                           (merge_left M_Division_name division_name matches_df (leaguedivision d)) of
                      Inl e \<Rightarrow> (d, Inl e)
                    | Inr data_list \<Rightarrow>
                        (d\<lparr>leaguematch := leaguematch d @ data_list\<rparr>, Inr (int (length data_list))))))"

text \<open>
  \<open>create_matches_details\<close>: up to two detail rows for each match row, one for each team
  name that resolves to a team.
\<close>

fun match_details :: "(string \<rightharpoonup> int) \<Rightarrow> matches_sheet_row list \<Rightarrow> match_detail_row list
    \<Rightarrow> match_detail_row list" where
  "match_details teams_dict [] data_list = data_list"
| "match_details teams_dict (x # xs) data_list =
     (let team1 = lookup_id teams_dict (M_Team1_name x);
          team2 = lookup_id teams_dict (M_Team2_name x);
          data_list1 =
            (if team1 \<noteq> - 1
             then data_list @ [\<lparr>md_leagueMatchId = M_id x, md_leagueTeamId = team1,
                                md_startsRed = (if M_Inverse x = 0 then True else False),
                                md_home = True\<rparr>]
             else data_list);
          data_list2 =
            (if team2 \<noteq> - 1
             then data_list1 @ [\<lparr>md_leagueMatchId = M_id x, md_leagueTeamId = team2,
                                 md_startsRed = (if M_Inverse x = 0 then False else True),
                                 md_home = False\<rparr>]
             else data_list1)
      in match_details teams_dict xs data_list2)"

definition create_matches_details :: "db \<Rightarrow> workbook \<Rightarrow> db \<times> (py_exn + int)" where
  "create_matches_details d excel =
     (case Matches_sheet excel of
        None \<Rightarrow> (d, Inl ValueError)
      | Some sheet \<Rightarrow>
          (let matches_df = filter_sentinel sheet
           in if matches_df = [] then (d, Inl ValueError)
              else case teams_dict_of d of
                Inl e \<Rightarrow> (d, Inl e)
              | Inr teams_dict \<Rightarrow>
                  if leaguematch d = [] then (d, Inl KeyError)
                  else (let matches_dict_records =
                              map fst (merge_left M_id match_id matches_df (leaguematch d));
                            data_list = match_details teams_dict matches_dict_records []
                        in (d\<lparr>leaguematchdetail := leaguematchdetail d @ data_list\<rparr>,
                            Inr (int (length data_list))))))"

subsection \<open>Clearing the database and the import driver\<close>

text \<open>The seven \<open>delete_many(where={})\<close> calls of \<open>clear_league_db\<close>, in their order.\<close>

definition clear_league_db :: "db \<Rightarrow> db" where
  "clear_league_db d =
     (let d1 = d\<lparr>leagueplayer := []\<rparr>;
          d2 = d1\<lparr>leagueteam := []\<rparr>;
          d3 = d2\<lparr>leagueplayerteams := []\<rparr>;
          d4 = d3\<lparr>leaguedivision := []\<rparr>;
          d5 = d4\<lparr>leaguematch := []\<rparr>;
          d6 = d5\<lparr>leaguematchdetail := []\<rparr>;
          d7 = d6\<lparr>leagueseason := []\<rparr>
      in d7)"

text \<open>
  \<open>treat_excel_file\<close> runs the eight steps, each in its own
  \<open>try: ... except Exception: st.error(...); clear_league_db(db); return False\<close>.
  The driver below is that control flow with the steps as parameters, so that what is
  proved of it holds for whatever a step does to the database before it raises (a
  constraint of the database, for one, which the steps above do not model). The messages
  of \<open>st.error\<close> are not modelled. The result is the database and either an exception
  that reaches the caller or the returned boolean.
\<close>

record import_steps =
  step_season :: "db \<Rightarrow> workbook \<Rightarrow> db \<times> (py_exn + season_row)"
  step_divisions :: "db \<Rightarrow> workbook \<Rightarrow> season_row \<Rightarrow> db \<times> (py_exn + int)"
  step_teams :: "db \<Rightarrow> workbook \<Rightarrow> db \<times> (py_exn + int)"
  step_team_divisions :: "db \<Rightarrow> workbook \<Rightarrow> db \<times> (py_exn + int)"
  step_players :: "db \<Rightarrow> workbook \<Rightarrow> db \<times> (py_exn + int)"
  step_team_players :: "db \<Rightarrow> workbook \<Rightarrow> db \<times> (py_exn + int)"
  step_matches :: "db \<Rightarrow> workbook \<Rightarrow> db \<times> (py_exn + int)"
  step_matches_details :: "db \<Rightarrow> workbook \<Rightarrow> db \<times> (py_exn + int)"

definition treat_excel_file_with :: "import_steps \<Rightarrow> db \<Rightarrow> workbook \<Rightarrow> db \<times> (py_exn + bool)" where
  "treat_excel_file_with S d excel_file =
     (case step_season S d excel_file of
        (d1, Inl e) \<Rightarrow> (clear_league_db d1, Inr False)
      | (d1, Inr season) \<Rightarrow>
     (case step_divisions S d1 excel_file season of
        (d2, Inl e) \<Rightarrow> (clear_league_db d2, Inr False)
      | (d2, Inr _) \<Rightarrow>
     (case step_teams S d2 excel_file of
        (d3, Inl e) \<Rightarrow> (clear_league_db d3, Inr False)
      | (d3, Inr _) \<Rightarrow>
     (case step_team_divisions S d3 excel_file of
        (d4, Inl e) \<Rightarrow> (clear_league_db d4, Inr False)
      | (d4, Inr _) \<Rightarrow>
     (case step_players S d4 excel_file of
        (d5, Inl e) \<Rightarrow> (clear_league_db d5, Inr False)
      | (d5, Inr _) \<Rightarrow>
     (case step_team_players S d5 excel_file of
        (d6, Inl e) \<Rightarrow> (clear_league_db d6, Inr False)
      | (d6, Inr _) \<Rightarrow>
     (case step_matches S d6 excel_file of
        (d7, Inl e) \<Rightarrow> (clear_league_db d7, Inr False)
      | (d7, Inr _) \<Rightarrow>
     (case step_matches_details S d7 excel_file of
        (d8, Inl e) \<Rightarrow> (clear_league_db d8, Inr False)
      | (d8, Inr _) \<Rightarrow> (d8, Inr True)))))))))"

definition league_steps :: "(string \<Rightarrow> py_exn + py_time) \<Rightarrow> import_steps" where
  "league_steps strptime =
     \<lparr>step_season = create_season,
      step_divisions = create_divisions,
      step_teams = create_teams,
      step_team_divisions = create_team_divisions_relationship,
      step_players = create_players,
      step_team_players = create_team_players_relationship,
      step_matches = create_matches strptime,
      step_matches_details = create_matches_details\<rparr>"

definition treat_excel_file :: "(string \<Rightarrow> py_exn + py_time) \<Rightarrow> db \<Rightarrow> workbook \<Rightarrow> db \<times> (py_exn + bool)" where
  "treat_excel_file strptime d excel_file = treat_excel_file_with (league_steps strptime) d excel_file"

subsection \<open>Export: team names from the match title\<close>

text \<open>
  \<open>re.match(r".* - (.+) vs (.+)", m.title)\<close> is a backtracking match anchored at the start
  of the title. A greedy \<open>.*\<close> or \<open>.+\<close> first takes as many characters as it can (never a
  line feed) and gives them back one at a time until the rest of the pattern matches.
  \<open>greedy_dot k taken s\<close> runs such a repetition on \<open>s\<close>, with \<open>taken\<close> the characters it
  already holds, and hands to \<open>k\<close>, the rest of the pattern, what it took and what is left.
\<close>

definition line_feed :: char where
  "line_feed = CHR 0x0A"

fun greedy_dot :: "(string \<Rightarrow> string \<Rightarrow> 'a option) \<Rightarrow> string \<Rightarrow> string \<Rightarrow> 'a option" where
  "greedy_dot k taken [] = k taken []"
| "greedy_dot k taken (c # cs) =
     (if c = line_feed then k taken (c # cs)
      else (case greedy_dot k (taken @ [c]) cs of
              Some r \<Rightarrow> Some r
            | None \<Rightarrow> k taken (c # cs)))"

text \<open>\<open>.+\<close> takes at least one character.\<close>

definition greedy_dot_plus :: "(string \<Rightarrow> string \<Rightarrow> 'a option) \<Rightarrow> string \<Rightarrow> 'a option" where
  "greedy_dot_plus k s =
     (case s of
        [] \<Rightarrow> None
      | c # cs \<Rightarrow> if c = line_feed then None else greedy_dot k [c] cs)"

text \<open>A literal of the pattern: the rest of the input after it, if the input starts with it.\<close>

fun literal :: "string \<Rightarrow> string \<Rightarrow> string option" where
  "literal [] s = Some s"
| "literal (p # ps) [] = None"
| "literal (p # ps) (c # cs) = (if p = c then literal ps cs else None)"

text \<open>The tail \<open>(.+) vs (.+)\<close> of the pattern, and the whole pattern.\<close>

definition match_vs :: "string \<Rightarrow> (string \<times> string) option" where
  "match_vs s2 =
     greedy_dot_plus (\<lambda>group1 s3.
       case literal '' vs '' s3 of
         None \<Rightarrow> None
       | Some s4 \<Rightarrow> greedy_dot_plus (\<lambda>group2 s5. Some (group1, group2)) s4) s2"

definition re_match_title :: "string \<Rightarrow> (string \<times> string) option" where
  "re_match_title title =
     greedy_dot (\<lambda>taken s1.
       case literal '' - '' s1 of
         None \<Rightarrow> None
       | Some s2 \<Rightarrow> match_vs s2) [] title"

text \<open>
  The two columns of the export, \<open>re.match(...).group(1)\<close> and \<open>.group(2)\<close>; on a title
  that does not match, \<open>re.match\<close> is \<open>None\<close> and \<open>.group\<close> raises.
\<close>

definition export_team_names :: "string \<Rightarrow> py_exn + (string \<times> string)" where
  "export_team_names title =
     (case re_match_title title of None \<Rightarrow> Inl AttributeError | Some g \<Rightarrow> Inr g)"

text \<open>
  The conditions on team names: \<open>starts_with p s\<close> when \<open>s\<close> begins with \<open>p\<close>, and
  \<open>contains sub s\<close> when \<open>sub\<close> is a substring of \<open>s\<close>.
\<close>

definition starts_with :: "string \<Rightarrow> string \<Rightarrow> bool" where
  "starts_with p s = (case literal p s of None \<Rightarrow> False | Some r \<Rightarrow> True)"

fun contains :: "string \<Rightarrow> string \<Rightarrow> bool" where
  "contains sub [] = starts_with sub []"
| "contains sub (c # cs) = (if starts_with sub (c # cs) then True else contains sub cs)"

subsection \<open>Statistics page: the records read from the database\<close>

record league_division =
  ld_id :: int
  ld_name :: string

text \<open>A match detail carries its team, of which the page reads the name (\<open>md.team.name\<close>).\<close>

record league_match_detail =
  lmd_team_name :: string

record league_match =
  lm_id :: int
  lm_leagueDivisionId :: int
  lm_matchday :: string
  lm_title :: string
  lm_detail :: "league_match_detail list"
  lm_periods :: "int list"

record league_player =
  lp_id :: int
  lp_name :: string

record league_player_team =
  lpt_player :: league_player
  lpt_active :: bool

record league_team_division =
  ltd_leagueDivisionId :: int

record league_team =
  lt_name :: string
  lt_divisions :: "league_team_division list"
  lt_players :: "league_player_team list"

subsection \<open>Matchday order and the progress cutoff\<close>

text \<open>
  Modelled from the spec: \<open>get_unique_order\<close> of \<open>utils.utils\<close>, which is not among the
  sources. The spec has it assign the order by first occurrence (stable de-duplication).
\<close>

definition get_unique_order :: "'a list \<Rightarrow> 'a list" where
  "get_unique_order xs = fold (\<lambda>x seen. if x \<in> set seen then seen else seen @ [x]) xs []"

text \<open>
  Modelled from the spec: \<open>is_match_played\<close> of \<open>utils.utils\<close>, which is not among the
  sources. The spec derives the played status from whether the match has any periods.
\<close>

definition is_match_played :: "league_match \<Rightarrow> bool" where
  "is_match_played m = (lm_periods m \<noteq> [])"

text \<open>
  The dictionary \<open>{v: i for i, v in enumerate(md_list)}\<close>, as the list of its items in
  insertion order; a key met again keeps its place and takes the new value.
\<close>

definition enumerate_py :: "'a list \<Rightarrow> (int \<times> 'a) list" where
  "enumerate_py xs = zip (map int [0..<length xs]) xs"

definition md_dict_of :: "string list \<Rightarrow> (string \<times> int) list" where
  "md_dict_of md_list = fold (\<lambda>(i, v) dict. AList.update v i dict) (enumerate_py md_list) []"

text \<open>\<open>dict[key]\<close> raises \<open>KeyError\<close> on a key that is absent.\<close>

definition dict_get :: "(string \<times> int) list \<Rightarrow> string \<Rightarrow> py_exn + int" where
  "dict_get dict k = (case map_of dict k of None \<Rightarrow> Inl KeyError | Some v \<Rightarrow> Inr v)"

text \<open>\<open>max\<close> and \<open>min\<close> of a collection raise \<open>ValueError\<close> when it is empty.\<close>

definition py_max :: "int list \<Rightarrow> py_exn + int" where
  "py_max xs = (case xs of [] \<Rightarrow> Inl ValueError | x # ys \<Rightarrow> Inr (fold max ys x))"

definition py_min :: "int list \<Rightarrow> py_exn + int" where
  "py_min xs = (case xs of [] \<Rightarrow> Inl ValueError | x # ys \<Rightarrow> Inr (fold min ys x))"

definition get_max_matchday_stats :: "league_match list \<Rightarrow> league_division option \<Rightarrow> py_exn + int" where
  "get_max_matchday_stats matches division =
     (case division of
        None \<Rightarrow> Inr 1
      | Some dv \<Rightarrow>
          (let matches_div = filter (\<lambda>m. lm_leagueDivisionId m = ld_id dv) matches;
               md_list = get_unique_order (map lm_matchday matches_div);
               md_dict = md_dict_of md_list
           in if length md_dict = 0 then Inr 0
              else (case comprehension (\<lambda>m. dict_get md_dict (lm_matchday m))
                           (filter (\<lambda>m. \<not> is_match_played m) matches_div) of
                      Inl e \<Rightarrow> Inl e
                    | Inr md_val_not_played \<Rightarrow>
                        if length md_val_not_played = 0 then py_max (map snd md_dict)
                        else (case py_min (remdups md_val_not_played) of
                                Inl e \<Rightarrow> Inl e
                              | Inr min_md_val_no_play \<Rightarrow> Inr (max 0 (min_md_val_no_play - 1))))))"

text \<open>
  The assigned matchday index, in the spec's words: matchday labels are ordered by first
  occurrence in the division's match list. \<open>first_seen_index labels v\<close> is the number of
  distinct labels met before the first occurrence of \<open>v\<close>, and \<open>matchday_index\<close> is that
  of a match's label among the labels of the selected division's matches.
\<close>

definition first_seen_index :: "'a list \<Rightarrow> 'a \<Rightarrow> nat" where
  "first_seen_index labels v = card (set (takeWhile (\<lambda>w. w \<noteq> v) labels))"

definition matchday_index :: "league_match list \<Rightarrow> league_division \<Rightarrow> league_match \<Rightarrow> int" where
  "matchday_index matches dv m =
     int (first_seen_index
            (map lm_matchday (filter (\<lambda>m'. lm_leagueDivisionId m' = ld_id dv) matches))
            (lm_matchday m))"

subsection \<open>Match filtering\<close>

text \<open>\<open>any([md.team.name == team_name for md in m.detail])\<close>\<close>

definition any_team :: "string \<Rightarrow> league_match \<Rightarrow> bool" where
  "any_team team_name m = list_ex (\<lambda>b. b) (map (\<lambda>md. lmd_team_name md = team_name) (lm_detail m))"

text \<open>The loop of \<open>filter_matches\<close> over the matches of the division.\<close>

fun filter_loop :: "(string \<times> int) list \<Rightarrow> string option \<Rightarrow> int \<times> int \<Rightarrow> league_match list
    \<Rightarrow> league_match list \<Rightarrow> py_exn + league_match list" where
  "filter_loop md_dict team_name matchdays_select [] match_list_filter = Inr match_list_filter"
| "filter_loop md_dict team_name matchdays_select (m # ms) match_list_filter =
     (case dict_get md_dict (lm_matchday m) of
        Inl e \<Rightarrow> Inl e
      | Inr i \<Rightarrow>
          if i < fst matchdays_select \<or> i > snd matchdays_select
          then filter_loop md_dict team_name matchdays_select ms match_list_filter
          else if (case team_name of None \<Rightarrow> True | Some t \<Rightarrow> any_team t m)
          then filter_loop md_dict team_name matchdays_select ms (match_list_filter @ [m])
          else filter_loop md_dict team_name matchdays_select ms match_list_filter)"

definition filter_matches :: "league_match list \<Rightarrow> string option \<Rightarrow> league_division option
    \<Rightarrow> int \<times> int \<Rightarrow> py_exn + league_match list" where
  "filter_matches matches team_name division matchdays_select =
     (case division of
        None \<Rightarrow> Inr matches
      | Some dv \<Rightarrow>
          (let matches_div = filter (\<lambda>m. lm_leagueDivisionId m = ld_id dv) matches;
               md_list = get_unique_order (map lm_matchday matches_div);
               md_dict = md_dict_of md_list
           in filter_loop md_dict team_name matchdays_select matches_div []))"

subsection \<open>Stat sheets and the aggregate\<close>

text \<open>
  The statistics of a sheet are the fields that the display reads; \<open>ps_player\<close> is \<open>None\<close>
  on an orphan sheet, one whose recorded name matched no player.
\<close>

record player_stats =
  st_gamePosition :: int
  st_gametime :: rat
  st_goals :: int
  st_assists :: int
  st_saves :: int
  st_ownGoals :: int
  st_passesAttempted :: int
  st_passesSuccessful :: int
  st_shots :: int
  st_shotsTarget :: int
  st_touches :: int
  st_kicks :: int
  st_secondaryAssists :: int
  st_tertiaryAssists :: int
  st_reboundDribbles :: int
  st_duels :: int
  st_interceptions :: int
  st_clears :: int
  st_averagePosX :: rat

record player_stat_sheet =
  ps_player :: "league_player option"
  ps_player_name :: string
  ps_team_name :: string
  ps_period_nb :: int
  ps_stats :: player_stats
  ps_cs :: int

text \<open>
  \<open>get_statsheet_list\<close> and \<open>sum_sheets\<close> of \<open>utils.utils\<close> are not among the sources;
  \<open>get_stats\<close> and \<open>show_missing_stats\<close> take them as parameters.
\<close>

definition get_stats ::
  "(league_player list \<Rightarrow> league_match \<Rightarrow> player_stat_sheet list) \<Rightarrow>
   (player_stat_sheet list \<Rightarrow> player_stat_sheet list) \<Rightarrow>
   league_match list \<Rightarrow> league_team list \<Rightarrow> league_player list \<Rightarrow>
   league_division option \<Rightarrow> string option \<Rightarrow> player_stat_sheet list" where
  "get_stats get_statsheet_list sum_sheets matches_filter teams players div_select team_name_select =
     (let period_sheets = fold (\<lambda>m sheets. sheets @ get_statsheet_list players m) matches_filter [];
          player_sheets = sum_sheets period_sheets;
          players_stats_id =
            fold (\<lambda>team ids.
                    if (case div_select of
                          None \<Rightarrow> True
                        | Some dv \<Rightarrow> ld_id dv \<in> set (map ltd_leagueDivisionId (lt_divisions team)))
                    then (if (case team_name_select of None \<Rightarrow> True | Some t \<Rightarrow> lt_name team = t)
                          then ids @ map (\<lambda>p. lp_id (lpt_player p)) (filter lpt_active (lt_players team))
                          else ids)
                    else ids) teams []
      in filter (\<lambda>ps. case ps_player ps of
                         None \<Rightarrow> False
                       | Some p \<Rightarrow> lp_id p \<in> set players_stats_id) player_sheets)"

text \<open>
  \<open>show_missing_stats\<close>: the list \<open>empty_sheets\<close>, each entry of which the admin view
  writes as one line.
\<close>

definition show_missing_stats ::
  "(league_player list \<Rightarrow> league_match \<Rightarrow> player_stat_sheet list) \<Rightarrow>
   league_match list \<Rightarrow> league_player list \<Rightarrow> (player_stat_sheet \<times> league_match) list" where
  "show_missing_stats get_statsheet_list matches_filter players =
     fold (\<lambda>m empty_sheets.
             empty_sheets @ map (\<lambda>ps. (ps, m))
                              (filter (\<lambda>ps. ps_player ps = None) (get_statsheet_list players m)))
          matches_filter []"

subsection \<open>Display: polars expressions\<close>

text \<open>
  \<open>treat_stat\<close> and the \<open>select\<close> of \<open>display_stats\<close> build polars expressions; they are
  modelled as terms, evaluated on a row of the frame. Polars divides in 64-bit floating
  point: here the finite values are exact rationals, rounding is not modelled, and a
  division by zero gives the non-finite value that floating point gives (\<open>NaN\<close> for
  \<open>0/0\<close>, an infinity otherwise) and raises nothing.
\<close>

datatype num = Fin rat | PosInf | NegInf | NaN

datatype cell = Number num | Text string

datatype expr =
    Col string
  | Lit int
  | Div expr expr
  | Floor expr
  | CastInt64 expr
  | Alias expr string

fun fdiv :: "num \<Rightarrow> num \<Rightarrow> num" where
  "fdiv (Fin a) (Fin b) =
     (if b \<noteq> 0 then Fin (a / b) else if a = 0 then NaN else if a > 0 then PosInf else NegInf)"
| "fdiv (Fin a) PosInf = Fin 0"
| "fdiv (Fin a) NegInf = Fin 0"
| "fdiv PosInf (Fin b) = (if b \<ge> 0 then PosInf else NegInf)"
| "fdiv NegInf (Fin b) = (if b \<ge> 0 then NegInf else PosInf)"
| "fdiv PosInf PosInf = NaN"
| "fdiv PosInf NegInf = NaN"
| "fdiv NegInf PosInf = NaN"
| "fdiv NegInf NegInf = NaN"
| "fdiv NaN y = NaN"
| "fdiv x NaN = NaN"

text \<open>
  The values of the type \<open>Int64\<close>. The cast to it drops the fraction of a finite value
  and raises \<open>ComputeError\<close> on a value that is outside the type or not finite.
\<close>

definition in_int64 :: "int \<Rightarrow> bool" where
  "in_int64 z = (- (2 ^ 63) \<le> z \<and> z < 2 ^ 63)"

fun eval :: "(string \<times> cell) list \<Rightarrow> expr \<Rightarrow> py_exn + cell" where
  "eval row (Col c) = (case map_of row c of None \<Rightarrow> Inl ColumnNotFoundError | Some v \<Rightarrow> Inr v)"
| "eval row (Lit i) = Inr (Number (Fin (of_int i)))"
| "eval row (Div a b) =
     (case eval row a of
        Inl e \<Rightarrow> Inl e
      | Inr (Text _) \<Rightarrow> Inl ComputeError
      | Inr (Number x) \<Rightarrow>
          (case eval row b of
             Inl e \<Rightarrow> Inl e
           | Inr (Text _) \<Rightarrow> Inl ComputeError
           | Inr (Number y) \<Rightarrow> Inr (Number (fdiv x y))))"
| "eval row (Floor a) =
     (case eval row a of
        Inl e \<Rightarrow> Inl e
      | Inr (Text _) \<Rightarrow> Inl ComputeError
      | Inr (Number (Fin r)) \<Rightarrow> Inr (Number (Fin (of_int \<lfloor>r\<rfloor>)))
      | Inr (Number x) \<Rightarrow> Inr (Number x))"
| "eval row (CastInt64 a) =
     (case eval row a of
        Inl e \<Rightarrow> Inl e
      | Inr (Number (Fin r)) \<Rightarrow>
          (let z = (if r \<ge> 0 then \<lfloor>r\<rfloor> else \<lceil>r\<rceil>)
           in if in_int64 z then Inr (Number (Fin (of_int z))) else Inl ComputeError)
      | Inr _ \<Rightarrow> Inl ComputeError)"
| "eval row (Alias a name) = eval row a"

text \<open>The name of the column an expression yields: its alias, or that of its leftmost column.\<close>

fun output_name :: "expr \<Rightarrow> string" where
  "output_name (Col c) = c"
| "output_name (Lit i) = ''literal''"
| "output_name (Div a b) = output_name a"
| "output_name (Floor a) = output_name a"
| "output_name (CastInt64 a) = output_name a"
| "output_name (Alias a name) = name"

text \<open>\<open>GAME_TIME\<close> of \<open>utils.constants\<close> is not among the sources and is a parameter.\<close>

definition treat_stat :: "int \<Rightarrow> expr \<Rightarrow> bool \<Rightarrow> expr \<Rightarrow> expr" where
  "treat_stat GAME_TIME stat normalized gametime =
     (if normalized then Div stat (Div gametime (Lit (GAME_TIME * 2 * 60))) else stat)"

text \<open>
  The frame of \<open>display_stats\<close>: \<open>pd.json_normalize\<close> gives one row for each sheet, with
  the columns \<open>player.*\<close>, \<open>stats.*\<close> and \<open>cs\<close>; \<open>ps.player.dict()\<close> raises on a sheet
  without a player.
\<close>

definition frame_row :: "player_stat_sheet \<Rightarrow> py_exn + (string \<times> cell) list" where
  "frame_row ps =
     (case ps_player ps of
        None \<Rightarrow> Inl AttributeError
      | Some p \<Rightarrow>
          Inr [(''player.id'', Number (Fin (of_int (lp_id p)))),
             (''player.name'', Text (lp_name p)),
             (''stats.gamePosition'', Number (Fin (of_int (st_gamePosition (ps_stats ps))))),
             (''stats.gametime'', Number (Fin (st_gametime (ps_stats ps)))),
             (''stats.goals'', Number (Fin (of_int (st_goals (ps_stats ps))))),
             (''stats.assists'', Number (Fin (of_int (st_assists (ps_stats ps))))),
             (''stats.saves'', Number (Fin (of_int (st_saves (ps_stats ps))))),
             (''stats.ownGoals'', Number (Fin (of_int (st_ownGoals (ps_stats ps))))),
             (''stats.passesAttempted'', Number (Fin (of_int (st_passesAttempted (ps_stats ps))))),
             (''stats.passesSuccessful'', Number (Fin (of_int (st_passesSuccessful (ps_stats ps))))),
             (''stats.shots'', Number (Fin (of_int (st_shots (ps_stats ps))))),
             (''stats.shotsTarget'', Number (Fin (of_int (st_shotsTarget (ps_stats ps))))),
             (''stats.touches'', Number (Fin (of_int (st_touches (ps_stats ps))))),
             (''stats.kicks'', Number (Fin (of_int (st_kicks (ps_stats ps))))),
             (''stats.secondaryAssists'', Number (Fin (of_int (st_secondaryAssists (ps_stats ps))))),
             (''stats.tertiaryAssists'', Number (Fin (of_int (st_tertiaryAssists (ps_stats ps))))),
             (''stats.reboundDribbles'', Number (Fin (of_int (st_reboundDribbles (ps_stats ps))))),
             (''stats.duels'', Number (Fin (of_int (st_duels (ps_stats ps))))),
             (''stats.interceptions'', Number (Fin (of_int (st_interceptions (ps_stats ps))))),
             (''stats.clears'', Number (Fin (of_int (st_clears (ps_stats ps))))),
             (''stats.averagePosX'', Number (Fin (st_averagePosX (ps_stats ps)))),
             (''cs'', Number (Fin (of_int (ps_cs ps))))])"

definition select_exprs :: "int \<Rightarrow> bool \<Rightarrow> expr list" where
  "select_exprs GAME_TIME normalized =
     (let gametime = CastInt64 (Floor (Col ''stats.gametime''))
      in [Col ''player.name'',
          Col ''stats.gamePosition'',
          gametime,
          treat_stat GAME_TIME (Col ''stats.goals'') normalized gametime,
          treat_stat GAME_TIME (Col ''stats.assists'') normalized gametime,
          treat_stat GAME_TIME (Col ''cs'') normalized gametime,
          treat_stat GAME_TIME (Col ''stats.saves'') normalized gametime,
          treat_stat GAME_TIME (Col ''stats.ownGoals'') normalized gametime,
          Alias (treat_stat GAME_TIME (Col ''stats.passesAttempted'') normalized gametime) ''passes'',
          Alias (Div (Col ''stats.passesSuccessful'') (Col ''stats.passesAttempted''))
                ''stats.passSuccess'',
          treat_stat GAME_TIME (Col ''stats.shots'') normalized gametime,
          treat_stat GAME_TIME (Col ''stats.shotsTarget'') normalized gametime,
          treat_stat GAME_TIME (Col ''stats.touches'') normalized gametime,
          treat_stat GAME_TIME (Col ''stats.kicks'') normalized gametime,
          Alias (treat_stat GAME_TIME (Col ''stats.secondaryAssists'') normalized gametime) ''assists_2'',
          Alias (treat_stat GAME_TIME (Col ''stats.tertiaryAssists'') normalized gametime) ''assists_3'',
          Alias (treat_stat GAME_TIME (Col ''stats.reboundDribbles'') normalized gametime) ''rebounds'',
          treat_stat GAME_TIME (Col ''stats.duels'') normalized gametime,
          treat_stat GAME_TIME (Col ''stats.interceptions'') normalized gametime,
          treat_stat GAME_TIME (Col ''stats.clears'') normalized gametime,
          Col ''stats.averagePosX''])"

definition select_row :: "expr list \<Rightarrow> (string \<times> cell) list \<Rightarrow> py_exn + (string \<times> cell) list" where
  "select_row exprs row =
     comprehension (\<lambda>e. case eval row e of Inl x \<Rightarrow> Inl x | Inr v \<Rightarrow> Inr (output_name e, v)) exprs"

text \<open>
  The two filters on the selected frame:
  \<open>pl.when(filter_players).then(pl.col("stats.gametime") >= GAME_TIME * 2 * 60).otherwise(True)\<close>
  and
  \<open>pl.when(filter_position is not None).then(pl.col("stats.gamePosition") == filter_position).otherwise(True)\<close>.
\<close>

definition keep_time :: "int \<Rightarrow> bool \<Rightarrow> (string \<times> cell) list \<Rightarrow> bool" where
  "keep_time GAME_TIME filter_players row =
     (if filter_players
      then (case map_of row ''stats.gametime'' of
              Some (Number (Fin r)) \<Rightarrow> r \<ge> of_int (GAME_TIME * 2 * 60)
            | _ \<Rightarrow> False)
      else True)"

definition keep_position :: "int option \<Rightarrow> (string \<times> cell) list \<Rightarrow> bool" where
  "keep_position filter_position row =
     (case filter_position of
        None \<Rightarrow> True
      | Some pos \<Rightarrow>
          (case map_of row ''stats.gamePosition'' of
             Some (Number (Fin r)) \<Rightarrow> r = of_int pos
           | _ \<Rightarrow> False))"

text \<open>
  \<open>df.columns.str.replace("player.|stats.", "", regex=True)\<close>: on the names of the
  selected columns, the only place the pattern matches is the prefix.
\<close>

definition rename_column :: "string \<Rightarrow> string" where
  "rename_column name =
     (if take 7 name = ''player.'' then drop 7 name
      else if take 6 name = ''stats.'' then drop 6 name
      else name)"

text \<open>
  \<open>display_stats\<close>: the displayed table, one list of named cells for each row; \<open>None\<close>
  when the frame is empty and the function returns before displaying anything.
\<close>

definition display_stats :: "int \<Rightarrow> player_stat_sheet list \<Rightarrow> bool \<Rightarrow> bool \<Rightarrow> int option
    \<Rightarrow> py_exn + (string \<times> cell) list list option" where
  "display_stats GAME_TIME statsheets normalized filter_players filter_position =
     (case comprehension frame_row statsheets of
        Inl e \<Rightarrow> Inl e
      | Inr df \<Rightarrow>
          if length df = 0 then Inr None
          else (case comprehension (select_row (select_exprs GAME_TIME normalized)) df of
                  Inl e \<Rightarrow> Inl e
                | Inr selected \<Rightarrow>
                    Inr (Some (map (map (\<lambda>(name, v). (rename_column name, v)))
                                 (filter (keep_position filter_position)
                                    (filter (keep_time GAME_TIME filter_players) selected))))))"

subsection \<open>Example inputs\<close>

definition empty_db :: db where
  "empty_db = \<lparr>leagueseason = [], leaguedivision = [], leagueteam = [], leagueteamdivisions = [],
     leagueplayer = [], leagueplayerteams = [], leaguematch = [], leaguematchdetail = []\<rparr>"

text \<open>A workbook with one season, one division and one team of that division, and no Players sheet.\<close>

definition workbook_without_players :: workbook where
  "workbook_without_players =
     \<lparr>Season_sheet = Some [''S1''],
      Divisions_sheet = Some [''D1''],
      Teams_sheet = Some [\<lparr>Teams_Division_name = Some ''D1'', Teams_name = ''A'', Teams_initials = ''AAA''\<rparr>],
      Players_sheet = None,
      Matches_sheet = Some []\<rparr>"

text \<open>
  A database with one team, one division and one player, and a workbook whose Teams and
  Players sheets also carry names that are not in the database.
\<close>

definition small_db :: db where
  "small_db = empty_db
     \<lparr>leaguedivision := [\<lparr>division_id = 1, division_name = ''D1'', division_leagueSeasonId = 1\<rparr>],
      leagueteam := [\<lparr>row_team_id = 1, row_team_name = ''A'', row_team_initials = ''AAA''\<rparr>],
      leagueplayer := [\<lparr>player_id = 1, player_name = ''p'', player_nicks = {}\<rparr>]\<rparr>"

definition teams_sheet_unresolved :: "teams_sheet_row list" where
  "teams_sheet_unresolved =
     [\<lparr>Teams_Division_name = Some ''D1'', Teams_name = ''A'', Teams_initials = ''AAA''\<rparr>,
      \<lparr>Teams_Division_name = Some ''D2'', Teams_name = ''A'', Teams_initials = ''AAA''\<rparr>,
      \<lparr>Teams_Division_name = Some ''D1'', Teams_name = ''B'', Teams_initials = ''BBB''\<rparr>,
      \<lparr>Teams_Division_name = None, Teams_name = ''A'', Teams_initials = ''AAA''\<rparr>]"

definition players_sheet_unresolved :: "players_sheet_row list" where
  "players_sheet_unresolved =
     [\<lparr>Players_Player = ''p'', Players_nicks = [], Players_Team = Some ''A'',
       Players_old_teams = [Some ''B'', Some ''A'']\<rparr>,
      \<lparr>Players_Player = ''q'', Players_nicks = [], Players_Team = Some ''A'',
       Players_old_teams = [Some ''A'']\<rparr>]"

definition workbook_unresolved :: workbook where
  "workbook_unresolved =
     \<lparr>Season_sheet = None, Divisions_sheet = None,
      Teams_sheet = Some teams_sheet_unresolved,
      Players_sheet = Some players_sheet_unresolved,
      Matches_sheet = None\<rparr>"

text \<open>
  A Matches sheet of two rows: a match between two teams, and a row with a team on one
  side and the sentinel on the other.
\<close>

definition played_row :: matches_sheet_row where
  "played_row =
     \<lparr>M_id = 1, M_Division_name = ''D1'', M_Matchday = ''1'', M_Game_number = 1,
      M_Team1_name = ''A'', M_Team2_name = ''B'', M_Date = 0, M_Time = ''08:00:00 PM'',
      M_Inverse = 0, M_Defwin = None, M_Add_red = None, M_Add_blue = None, M_Replay = None\<rparr>"





text \<open>
  A match with three sheets: one of a player active on team A, one of a player who is on
  team A but no longer active, and one orphan sheet.
\<close>

definition zero_stats :: player_stats where
  "zero_stats =
     \<lparr>st_gamePosition = 1, st_gametime = 0,
      st_goals = 0, st_assists = 0, st_saves = 0, st_ownGoals = 0, st_passesAttempted = 0,
      st_passesSuccessful = 0, st_shots = 0, st_shotsTarget = 0, st_touches = 0, st_kicks = 0,
      st_secondaryAssists = 0, st_tertiaryAssists = 0, st_reboundDribbles = 0, st_duels = 0, st_interceptions = 0, st_clears = 0,
      st_averagePosX = 0\<rparr>"

definition player_ann :: league_player where
  "player_ann = \<lparr>lp_id = 1, lp_name = ''ann''\<rparr>"

definition player_bob :: league_player where
  "player_bob = \<lparr>lp_id = 2, lp_name = ''bob''\<rparr>"

definition sheet_of :: "league_player option \<Rightarrow> string \<Rightarrow> player_stat_sheet" where
  "sheet_of p name =
     \<lparr>ps_player = p, ps_player_name = name, ps_team_name = ''A'', ps_period_nb = 1,
      ps_stats = zero_stats, ps_cs = 0\<rparr>"

definition team_a :: league_team where
  "team_a =
     \<lparr>lt_name = ''A'',
      lt_divisions = [\<lparr>ltd_leagueDivisionId = 1\<rparr>],
      lt_players = [\<lparr>lpt_player = player_ann, lpt_active = True\<rparr>,
                    \<lparr>lpt_player = player_bob, lpt_active = False\<rparr>]\<rparr>"

definition match_one :: league_match where
  "match_one =
     \<lparr>lm_id = 1, lm_leagueDivisionId = 1, lm_matchday = ''1'', lm_title = ''MD 1 - A vs B'',
      lm_detail = [\<lparr>lmd_team_name = ''A''\<rparr>, \<lparr>lmd_team_name = ''B''\<rparr>], lm_periods = [1]\<rparr>"

definition sheets_of_match :: "league_player list \<Rightarrow> league_match \<Rightarrow> player_stat_sheet list" where
  "sheets_of_match players m =
     [sheet_of (Some player_ann) ''ann'', sheet_of (Some player_bob) ''bob'', sheet_of None ''zed'']"

text \<open>
  Rows for the normalization: four goals in 1800 seconds, and four goals with no playing
  time; and a sheet without any pass attempted.
\<close>

definition goals_row :: "(string \<times> cell) list" where
  "goals_row = [(''stats.goals'', Number (Fin 4)), (''stats.gametime'', Number (Fin 1800))]"

definition idle_row :: "(string \<times> cell) list" where
  "idle_row = [(''stats.goals'', Number (Fin 4)), (''stats.gametime'', Number (Fin 0))]"

definition zero_attempts_sheet :: player_stat_sheet where
  "zero_attempts_sheet = sheet_of (Some player_ann) ''ann''"

text \<open>A sheet with three passes successful out of four attempted.\<close>

definition passing_sheet :: player_stat_sheet where
  "passing_sheet =
     (sheet_of (Some player_bob) ''bob'')
       \<lparr>ps_stats := zero_stats\<lparr>st_passesAttempted := 4, st_passesSuccessful := 3\<rparr>\<rparr>"

text \<open>A row of the Matches sheet with the given matchday label, game number and team names.\<close>

definition title_row :: "string \<Rightarrow> int \<Rightarrow> string \<Rightarrow> string \<Rightarrow> matches_sheet_row" where
  "title_row md g t1 t2 =
     played_row\<lparr>M_Matchday := md, M_Game_number := g, M_Team1_name := t1, M_Team2_name := t2\<rparr>"


section \<open>Properties of the import\<close>

subsection \<open>The driver\<close>

text \<open>
  C10. \<open>treat_excel_file\<close> never lets an exception of a creation step reach its caller:
  for whatever the eight steps do, the result is a returned boolean, and that boolean is
  \<open>True\<close> exactly when each of the eight steps, run in order on the database the previous
  one left, completes without raising; in every other case it is \<open>False\<close>.
\<close>

theorem treat_excel_file_never_raises:
  "snd (treat_excel_file_with S d excel_file) =
     Inr (\<exists>d1 season d2 n2 d3 n3 d4 n4 d5 n5 d6 n6 d7 n7 d8 n8.
            step_season S d excel_file = (d1, Inr season) \<and>
            step_divisions S d1 excel_file season = (d2, Inr n2) \<and>
            step_teams S d2 excel_file = (d3, Inr n3) \<and>
            step_team_divisions S d3 excel_file = (d4, Inr n4) \<and>
            step_players S d4 excel_file = (d5, Inr n5) \<and>
            step_team_players S d5 excel_file = (d6, Inr n6) \<and>
            step_matches S d6 excel_file = (d7, Inr n7) \<and>
            step_matches_details S d7 excel_file = (d8, Inr n8))"
  unfolding treat_excel_file_with_def
  by (simp split: prod.splits sum.splits)

text \<open>
  When \<open>treat_excel_file\<close> returns \<open>False\<close>, the seven tables that \<open>clear_league_db\<close>
  deletes are empty, whatever the steps did before.
\<close>

lemma clear_league_db_tables:
  "leagueseason (clear_league_db d) = [] \<and> leaguedivision (clear_league_db d) = [] \<and>
   leagueteam (clear_league_db d) = [] \<and> leagueplayer (clear_league_db d) = [] \<and>
   leagueplayerteams (clear_league_db d) = [] \<and> leaguematch (clear_league_db d) = [] \<and>
   leaguematchdetail (clear_league_db d) = [] \<and>
   leagueteamdivisions (clear_league_db d) = leagueteamdivisions d"
  by (simp add: clear_league_db_def)

lemma treat_excel_file_failure_clears:
  assumes "treat_excel_file_with S d excel_file = (d', Inr False)"
  shows "leagueseason d' = [] \<and> leaguedivision d' = [] \<and> leagueteam d' = [] \<and>
         leagueplayer d' = [] \<and> leagueplayerteams d' = [] \<and> leaguematch d' = [] \<and>
         leaguematchdetail d' = []"
proof -
  from assms obtain d0 where "d' = clear_league_db d0"
    unfolding treat_excel_file_with_def
    by (auto split: prod.splits sum.splits)
  then show ?thesis by (simp add: clear_league_db_tables)
qed

text \<open>
  C1. On the workbook without a Players sheet, imported into an empty database, the
  first four steps succeed and the Players step raises; \<open>treat_excel_file\<close> returns
  \<open>False\<close>, and the team-division link created by the fourth step is still in its table
  afterwards: \<open>clear_league_db\<close> has no \<open>delete_many\<close> for \<open>leagueteamdivisions\<close>.
\<close>

theorem treat_excel_file_leaves_team_division_links:
  "treat_excel_file (\<lambda>_. Inl ValueError) empty_db workbook_without_players =
     (empty_db\<lparr>leagueteamdivisions := [\<lparr>td_leagueTeamId = 1, td_leagueDivisionId = 1\<rparr>]\<rparr>, Inr False)"
  by (simp add: treat_excel_file_def treat_excel_file_with_def league_steps_def empty_db_def
      workbook_without_players_def create_season_def create_divisions_def create_teams_def
      create_team_divisions_relationship_def create_players_def clear_league_db_def
      next_id_def with_ids_def teams_dict_of_def divisions_dict_of_def id_dict_def
      team_division_links_def lookup_id_def lookup_cell_def Let_def)

subsection \<open>Relationship building\<close>

lemma link_rows_eq:
  "link_rows mk items acc = acc @ map (\<lambda>(k, v). mk k v) (filter (\<lambda>(k, v). k \<noteq> - 1 \<and> v \<noteq> - 1) items)"
  by (induction items arbitrary: acc) auto

lemma id_dict_Inr: "rows \<noteq> [] \<Longrightarrow> id_dict rows = Inr (map_of (rev rows))"
  by (simp add: id_dict_def)

lemma lookup_id_unmatched: "x \<notin> fst ` set rows \<Longrightarrow> lookup_id (map_of (rev rows)) x = - 1"
  by (simp add: lookup_id_def map_of_eq_None_iff[THEN iffD2])

lemma lookup_id_matched:
  "lookup_id (map_of (rev rows)) x \<noteq> - 1 \<Longrightarrow> (x, lookup_id (map_of (rev rows)) x) \<in> set rows"
  by (auto simp: lookup_id_def split: option.splits dest: map_of_SomeD)

lemma lookup_cell_matched:
  "lookup_cell (map_of (rev rows)) c \<noteq> - 1 \<Longrightarrow>
     \<exists>s. c = Some s \<and> (s, lookup_cell (map_of (rev rows)) c) \<in> set rows"
  by (cases c) (auto simp: lookup_cell_def dest: lookup_id_matched)

lemma lookup_cell_unmatched:
  "(\<And>s. c = Some s \<Longrightarrow> s \<notin> fst ` set rows) \<Longrightarrow> lookup_cell (map_of (rev rows)) c = - 1"
  by (cases c) (auto simp: lookup_cell_def intro: lookup_id_unmatched)

lemma td_links_eq:
  "team_division_links T D teams_df =
     map (\<lambda>r. \<lparr>td_leagueTeamId = lookup_id T (Teams_name r),
                td_leagueDivisionId = lookup_cell D (Teams_Division_name r)\<rparr>)
       (filter (\<lambda>r. lookup_id T (Teams_name r) \<noteq> - 1 \<and> lookup_cell D (Teams_Division_name r) \<noteq> - 1) teams_df)"
  by (simp add: team_division_links_def link_rows_eq filter_map comp_def)

lemma active_links_eq:
  "player_team_links_active P T players_df =
     map (\<lambda>r. \<lparr>pt_leaguePlayerId = lookup_id P (Players_Player r),
                pt_leagueTeamId = lookup_cell T (Players_Team r), pt_active = True\<rparr>)
       (filter (\<lambda>r. lookup_id P (Players_Player r) \<noteq> - 1 \<and> lookup_cell T (Players_Team r) \<noteq> - 1) players_df)"
  by (simp add: player_team_links_active_def link_rows_eq filter_map comp_def)

lemma fold_link_cols:
  "fold (\<lambda>col acc. link_rows mk (items col) acc) cols acc0 =
     acc0 @ concat (map (\<lambda>col. map (\<lambda>(k, v). mk k v) (filter (\<lambda>(k, v). k \<noteq> - 1 \<and> v \<noteq> - 1) (items col))) cols)"
  by (induction cols arbitrary: acc0) (auto simp: link_rows_eq)

lemma inactive_links_eq:
  "player_team_links_inactive P T players_df =
     concat (map (\<lambda>col.
       map (\<lambda>r. \<lparr>pt_leaguePlayerId = lookup_id P (Players_Player r),
                  pt_leagueTeamId = lookup_cell T (old_team_cell r col), pt_active = False\<rparr>)
         (filter (\<lambda>r. lookup_id P (Players_Player r) \<noteq> - 1 \<and> lookup_cell T (old_team_cell r col) \<noteq> - 1) players_df))
       [0..<old_team_columns players_df])"
  unfolding player_team_links_inactive_def
  by (simp add: fold_link_cols filter_map comp_def)


lemma teams_dict_Inr:
  "leagueteam d \<noteq> [] \<Longrightarrow>
     teams_dict_of d = Inr (map_of (rev (map (\<lambda>t. (row_team_name t, row_team_id t)) (leagueteam d))))"
  by (simp add: teams_dict_of_def id_dict_def)

lemma divisions_dict_Inr:
  "leaguedivision d \<noteq> [] \<Longrightarrow>
     divisions_dict_of d = Inr (map_of (rev (map (\<lambda>t. (division_name t, division_id t)) (leaguedivision d))))"
  by (simp add: divisions_dict_of_def id_dict_def)

lemma players_dict_Inr:
  "leagueplayer d \<noteq> [] \<Longrightarrow>
     players_dict_of d = Inr (map_of (rev (map (\<lambda>t. (player_name t, player_id t)) (leagueplayer d))))"
  by (simp add: players_dict_of_def id_dict_def)

lemma unmatched_name: "x \<notin> set (map f rows) \<Longrightarrow> lookup_id (map_of (rev (map (\<lambda>t. (f t, g t)) rows))) x = - 1"
  by (rule lookup_id_unmatched) (auto simp: image_iff)

lemma team_divisions_resolved:
  assumes "Teams_sheet excel = Some teams_df" and "leagueteam d \<noteq> []" and "leaguedivision d \<noteq> []"
  shows "(\<exists>teams_dict divisions_dict.
        teams_dict_of d = Inr teams_dict \<and>
        divisions_dict_of d = Inr divisions_dict \<and>
        (\<forall>x. x \<notin> set (map row_team_name (leagueteam d)) \<longrightarrow> lookup_id teams_dict x = - 1) \<and>
        (\<forall>x. x \<notin> set (map division_name (leaguedivision d)) \<longrightarrow> lookup_id divisions_dict x = - 1) \<and>
        create_team_divisions_relationship d excel =
          (let data_list =
                 map (\<lambda>r. \<lparr>td_leagueTeamId = lookup_id teams_dict (Teams_name r),
                            td_leagueDivisionId = lookup_cell divisions_dict (Teams_Division_name r)\<rparr>)
                   (filter (\<lambda>r. lookup_id teams_dict (Teams_name r) \<noteq> - 1 \<and>
                                lookup_cell divisions_dict (Teams_Division_name r) \<noteq> - 1) teams_df)
           in (d\<lparr>leagueteamdivisions := leagueteamdivisions d @ data_list\<rparr>,
               Inr (int (length data_list)))) \<and>
        (\<forall>l \<in> set (leagueteamdivisions (fst (create_team_divisions_relationship d excel))).
           l \<in> set (leagueteamdivisions d) \<or> td_leagueTeamId l \<noteq> - 1 \<and> td_leagueDivisionId l \<noteq> - 1))"
proof -
  let ?T = "map_of (rev (map (\<lambda>t. (row_team_name t, row_team_id t)) (leagueteam d)))"
  let ?D = "map_of (rev (map (\<lambda>t. (division_name t, division_id t)) (leaguedivision d)))"
  have T: "teams_dict_of d = Inr ?T" using assms(2) by (rule teams_dict_Inr)
  have D: "divisions_dict_of d = Inr ?D" using assms(3) by (rule divisions_dict_Inr)
  have uT: "\<forall>x. x \<notin> set (map row_team_name (leagueteam d)) \<longrightarrow> lookup_id ?T x = - 1"
    using unmatched_name[of _ row_team_name "leagueteam d" row_team_id] by blast
  have uD: "\<forall>x. x \<notin> set (map division_name (leaguedivision d)) \<longrightarrow> lookup_id ?D x = - 1"
    using unmatched_name[of _ division_name "leaguedivision d" division_id] by blast
  have td: "create_team_divisions_relationship d excel =
       (let data_list =
              map (\<lambda>r. \<lparr>td_leagueTeamId = lookup_id ?T (Teams_name r),
                         td_leagueDivisionId = lookup_cell ?D (Teams_Division_name r)\<rparr>)
                (filter (\<lambda>r. lookup_id ?T (Teams_name r) \<noteq> - 1 \<and>
                             lookup_cell ?D (Teams_Division_name r) \<noteq> - 1) teams_df)
        in (d\<lparr>leagueteamdivisions := leagueteamdivisions d @ data_list\<rparr>, Inr (int (length data_list))))"
    by (simp add: create_team_divisions_relationship_def assms(1) T D td_links_eq Let_def)
  have s1: "\<forall>l \<in> set (leagueteamdivisions (fst (create_team_divisions_relationship d excel))).
        l \<in> set (leagueteamdivisions d) \<or> td_leagueTeamId l \<noteq> - 1 \<and> td_leagueDivisionId l \<noteq> - 1"
    unfolding td by (auto simp: Let_def)
  show ?thesis
    using T D uT uD td s1 by blast
qed

lemma team_players_resolved:
  assumes "Players_sheet excel = Some players_df" and "leagueplayer d \<noteq> []" and "leagueteam d \<noteq> []"
  shows "(\<exists>players_dict teams_dict.
        players_dict_of d = Inr players_dict \<and>
        teams_dict_of d = Inr teams_dict \<and>
        (\<forall>x. x \<notin> set (map player_name (leagueplayer d)) \<longrightarrow> lookup_id players_dict x = - 1) \<and>
        (\<forall>x. x \<notin> set (map row_team_name (leagueteam d)) \<longrightarrow> lookup_id teams_dict x = - 1) \<and>
        create_team_players_relationship d excel =
          (let data_list_active =
                 map (\<lambda>r. \<lparr>pt_leaguePlayerId = lookup_id players_dict (Players_Player r),
                            pt_leagueTeamId = lookup_cell teams_dict (Players_Team r), pt_active = True\<rparr>)
                   (filter (\<lambda>r. lookup_id players_dict (Players_Player r) \<noteq> - 1 \<and>
                                lookup_cell teams_dict (Players_Team r) \<noteq> - 1) players_df);
               data_list_inactive =
                 concat (map (\<lambda>col.
                   map (\<lambda>r. \<lparr>pt_leaguePlayerId = lookup_id players_dict (Players_Player r),
                              pt_leagueTeamId = lookup_cell teams_dict (old_team_cell r col),
                              pt_active = False\<rparr>)
                     (filter (\<lambda>r. lookup_id players_dict (Players_Player r) \<noteq> - 1 \<and>
                                  lookup_cell teams_dict (old_team_cell r col) \<noteq> - 1) players_df))
                   [0..<old_team_columns players_df])
           in (d\<lparr>leagueplayerteams := leagueplayerteams d @ data_list_active @ data_list_inactive\<rparr>,
               Inr (int (length data_list_active) + int (length data_list_inactive)))) \<and>
        (\<forall>l \<in> set (leagueplayerteams (fst (create_team_players_relationship d excel))).
           l \<in> set (leagueplayerteams d) \<or> pt_leaguePlayerId l \<noteq> - 1 \<and> pt_leagueTeamId l \<noteq> - 1))"
proof -
  let ?T = "map_of (rev (map (\<lambda>t. (row_team_name t, row_team_id t)) (leagueteam d)))"
  let ?P = "map_of (rev (map (\<lambda>t. (player_name t, player_id t)) (leagueplayer d)))"
  have T: "teams_dict_of d = Inr ?T" using assms(3) by (rule teams_dict_Inr)
  have P: "players_dict_of d = Inr ?P" using assms(2) by (rule players_dict_Inr)
  have uT: "\<forall>x. x \<notin> set (map row_team_name (leagueteam d)) \<longrightarrow> lookup_id ?T x = - 1"
    using unmatched_name[of _ row_team_name "leagueteam d" row_team_id] by blast
  have uP: "\<forall>x. x \<notin> set (map player_name (leagueplayer d)) \<longrightarrow> lookup_id ?P x = - 1"
    using unmatched_name[of _ player_name "leagueplayer d" player_id] by blast
  have pt: "create_team_players_relationship d excel =
       (let data_list_active =
              map (\<lambda>r. \<lparr>pt_leaguePlayerId = lookup_id ?P (Players_Player r),
                         pt_leagueTeamId = lookup_cell ?T (Players_Team r), pt_active = True\<rparr>)
                (filter (\<lambda>r. lookup_id ?P (Players_Player r) \<noteq> - 1 \<and>
                             lookup_cell ?T (Players_Team r) \<noteq> - 1) players_df);
            data_list_inactive =
              concat (map (\<lambda>col.
                map (\<lambda>r. \<lparr>pt_leaguePlayerId = lookup_id ?P (Players_Player r),
                           pt_leagueTeamId = lookup_cell ?T (old_team_cell r col), pt_active = False\<rparr>)
                  (filter (\<lambda>r. lookup_id ?P (Players_Player r) \<noteq> - 1 \<and>
                               lookup_cell ?T (old_team_cell r col) \<noteq> - 1) players_df))
                [0..<old_team_columns players_df])
        in (d\<lparr>leagueplayerteams := leagueplayerteams d @ data_list_active @ data_list_inactive\<rparr>,
            Inr (int (length data_list_active) + int (length data_list_inactive))))"
    by (simp add: create_team_players_relationship_def assms(1) T P active_links_eq inactive_links_eq Let_def)
  have s2: "\<forall>l \<in> set (leagueplayerteams (fst (create_team_players_relationship d excel))).
        l \<in> set (leagueplayerteams d) \<or> pt_leaguePlayerId l \<noteq> - 1 \<and> pt_leagueTeamId l \<noteq> - 1"
    unfolding pt by (auto simp: Let_def)
  show ?thesis
    using P T uP uT pt s2 by blast
qed

text \<open>
  C7 (as amended). In each relationship step, when the sheet is readable and the tables
  in which the step looks names up are not empty, no exception is raised whatever names
  the sheet holds. A name with no exact match among the rows of its table is mapped to
  \<open>-1\<close>; the rows inserted are those of the sheet rows (for the old teams, of the cells)
  whose player or team id and team or division id both differ from \<open>-1\<close>, so a row with an
  unresolved name inserts nothing; and every row the step adds to its table has both ids
  different from \<open>-1\<close>.
\<close>

theorem relationship_unresolved_names:
  "(\<forall>teams_df.
      Teams_sheet excel = Some teams_df \<and> leagueteam d \<noteq> [] \<and> leaguedivision d \<noteq> [] \<longrightarrow>
      (\<exists>teams_dict divisions_dict.
        teams_dict_of d = Inr teams_dict \<and>
        divisions_dict_of d = Inr divisions_dict \<and>
        (\<forall>x. x \<notin> set (map row_team_name (leagueteam d)) \<longrightarrow> lookup_id teams_dict x = - 1) \<and>
        (\<forall>x. x \<notin> set (map division_name (leaguedivision d)) \<longrightarrow> lookup_id divisions_dict x = - 1) \<and>
        create_team_divisions_relationship d excel =
          (let data_list =
                 map (\<lambda>r. \<lparr>td_leagueTeamId = lookup_id teams_dict (Teams_name r),
                            td_leagueDivisionId = lookup_cell divisions_dict (Teams_Division_name r)\<rparr>)
                   (filter (\<lambda>r. lookup_id teams_dict (Teams_name r) \<noteq> - 1 \<and>
                                lookup_cell divisions_dict (Teams_Division_name r) \<noteq> - 1) teams_df)
           in (d\<lparr>leagueteamdivisions := leagueteamdivisions d @ data_list\<rparr>,
               Inr (int (length data_list)))) \<and>
        (\<forall>l \<in> set (leagueteamdivisions (fst (create_team_divisions_relationship d excel))).
           l \<in> set (leagueteamdivisions d) \<or> td_leagueTeamId l \<noteq> - 1 \<and> td_leagueDivisionId l \<noteq> - 1))) \<and>
   (\<forall>players_df.
      Players_sheet excel = Some players_df \<and> leagueplayer d \<noteq> [] \<and> leagueteam d \<noteq> [] \<longrightarrow>
      (\<exists>players_dict teams_dict.
        players_dict_of d = Inr players_dict \<and>
        teams_dict_of d = Inr teams_dict \<and>
        (\<forall>x. x \<notin> set (map player_name (leagueplayer d)) \<longrightarrow> lookup_id players_dict x = - 1) \<and>
        (\<forall>x. x \<notin> set (map row_team_name (leagueteam d)) \<longrightarrow> lookup_id teams_dict x = - 1) \<and>
        create_team_players_relationship d excel =
          (let data_list_active =
                 map (\<lambda>r. \<lparr>pt_leaguePlayerId = lookup_id players_dict (Players_Player r),
                            pt_leagueTeamId = lookup_cell teams_dict (Players_Team r), pt_active = True\<rparr>)
                   (filter (\<lambda>r. lookup_id players_dict (Players_Player r) \<noteq> - 1 \<and>
                                lookup_cell teams_dict (Players_Team r) \<noteq> - 1) players_df);
               data_list_inactive =
                 concat (map (\<lambda>col.
                   map (\<lambda>r. \<lparr>pt_leaguePlayerId = lookup_id players_dict (Players_Player r),
                              pt_leagueTeamId = lookup_cell teams_dict (old_team_cell r col),
                              pt_active = False\<rparr>)
                     (filter (\<lambda>r. lookup_id players_dict (Players_Player r) \<noteq> - 1 \<and>
                                  lookup_cell teams_dict (old_team_cell r col) \<noteq> - 1) players_df))
                   [0..<old_team_columns players_df])
           in (d\<lparr>leagueplayerteams := leagueplayerteams d @ data_list_active @ data_list_inactive\<rparr>,
               Inr (int (length data_list_active) + int (length data_list_inactive)))) \<and>
        (\<forall>l \<in> set (leagueplayerteams (fst (create_team_players_relationship d excel))).
           l \<in> set (leagueplayerteams d) \<or> pt_leaguePlayerId l \<noteq> - 1 \<and> pt_leagueTeamId l \<noteq> - 1)))"
proof (intro conjI allI impI)
  fix teams_df
  assume "Teams_sheet excel = Some teams_df \<and> leagueteam d \<noteq> [] \<and> leaguedivision d \<noteq> []"
  then have "Teams_sheet excel = Some teams_df" "leagueteam d \<noteq> []" "leaguedivision d \<noteq> []"
    by blast+
  then show "(\<exists>teams_dict divisions_dict.
        teams_dict_of d = Inr teams_dict \<and>
        divisions_dict_of d = Inr divisions_dict \<and>
        (\<forall>x. x \<notin> set (map row_team_name (leagueteam d)) \<longrightarrow> lookup_id teams_dict x = - 1) \<and>
        (\<forall>x. x \<notin> set (map division_name (leaguedivision d)) \<longrightarrow> lookup_id divisions_dict x = - 1) \<and>
        create_team_divisions_relationship d excel =
          (let data_list =
                 map (\<lambda>r. \<lparr>td_leagueTeamId = lookup_id teams_dict (Teams_name r),
                            td_leagueDivisionId = lookup_cell divisions_dict (Teams_Division_name r)\<rparr>)
                   (filter (\<lambda>r. lookup_id teams_dict (Teams_name r) \<noteq> - 1 \<and>
                                lookup_cell divisions_dict (Teams_Division_name r) \<noteq> - 1) teams_df)
           in (d\<lparr>leagueteamdivisions := leagueteamdivisions d @ data_list\<rparr>,
               Inr (int (length data_list)))) \<and>
        (\<forall>l \<in> set (leagueteamdivisions (fst (create_team_divisions_relationship d excel))).
           l \<in> set (leagueteamdivisions d) \<or> td_leagueTeamId l \<noteq> - 1 \<and> td_leagueDivisionId l \<noteq> - 1))"
    by (rule team_divisions_resolved)
next
  fix players_df
  assume "Players_sheet excel = Some players_df \<and> leagueplayer d \<noteq> [] \<and> leagueteam d \<noteq> []"
  then have "Players_sheet excel = Some players_df" "leagueplayer d \<noteq> []" "leagueteam d \<noteq> []"
    by blast+
  then show "(\<exists>players_dict teams_dict.
        players_dict_of d = Inr players_dict \<and>
        teams_dict_of d = Inr teams_dict \<and>
        (\<forall>x. x \<notin> set (map player_name (leagueplayer d)) \<longrightarrow> lookup_id players_dict x = - 1) \<and>
        (\<forall>x. x \<notin> set (map row_team_name (leagueteam d)) \<longrightarrow> lookup_id teams_dict x = - 1) \<and>
        create_team_players_relationship d excel =
          (let data_list_active =
                 map (\<lambda>r. \<lparr>pt_leaguePlayerId = lookup_id players_dict (Players_Player r),
                            pt_leagueTeamId = lookup_cell teams_dict (Players_Team r), pt_active = True\<rparr>)
                   (filter (\<lambda>r. lookup_id players_dict (Players_Player r) \<noteq> - 1 \<and>
                                lookup_cell teams_dict (Players_Team r) \<noteq> - 1) players_df);
               data_list_inactive =
                 concat (map (\<lambda>col.
                   map (\<lambda>r. \<lparr>pt_leaguePlayerId = lookup_id players_dict (Players_Player r),
                              pt_leagueTeamId = lookup_cell teams_dict (old_team_cell r col),
                              pt_active = False\<rparr>)
                     (filter (\<lambda>r. lookup_id players_dict (Players_Player r) \<noteq> - 1 \<and>
                                  lookup_cell teams_dict (old_team_cell r col) \<noteq> - 1) players_df))
                   [0..<old_team_columns players_df])
           in (d\<lparr>leagueplayerteams := leagueplayerteams d @ data_list_active @ data_list_inactive\<rparr>,
               Inr (int (length data_list_active) + int (length data_list_inactive)))) \<and>
        (\<forall>l \<in> set (leagueplayerteams (fst (create_team_players_relationship d excel))).
           l \<in> set (leagueplayerteams d) \<or> pt_leaguePlayerId l \<noteq> - 1 \<and> pt_leagueTeamId l \<noteq> - 1))"
    by (rule team_players_resolved)
qed

theorem relationship_unresolved_names_witness:
  "Teams_sheet workbook_unresolved = Some teams_sheet_unresolved \<and>
   Players_sheet workbook_unresolved = Some players_sheet_unresolved \<and>
   leagueteam small_db \<noteq> [] \<and> leaguedivision small_db \<noteq> [] \<and> leagueplayer small_db \<noteq> [] \<and>
   create_team_divisions_relationship small_db workbook_unresolved =
     (small_db\<lparr>leagueteamdivisions := [\<lparr>td_leagueTeamId = 1, td_leagueDivisionId = 1\<rparr>]\<rparr>, Inr 1) \<and>
   create_team_players_relationship small_db workbook_unresolved =
     (small_db\<lparr>leagueplayerteams :=
         [\<lparr>pt_leaguePlayerId = 1, pt_leagueTeamId = 1, pt_active = True\<rparr>,
          \<lparr>pt_leaguePlayerId = 1, pt_leagueTeamId = 1, pt_active = False\<rparr>]\<rparr>, Inr 2)"
proof -
  have h1: "Teams_sheet workbook_unresolved = Some teams_sheet_unresolved"
    and h2: "Players_sheet workbook_unresolved = Some players_sheet_unresolved"
    by (simp_all add: workbook_unresolved_def)
  have h3: "leagueteam small_db \<noteq> []" and h4: "leaguedivision small_db \<noteq> []"
    and h5: "leagueplayer small_db \<noteq> []"
    by (simp_all add: small_db_def empty_db_def)
  have cols: "[0..<old_team_columns players_sheet_unresolved] = [0, 1]"
    by (simp add: old_team_columns_def players_sheet_unresolved_def upt_rec)
  note th = relationship_unresolved_names [of workbook_unresolved small_db]
  note td0 = th [THEN conjunct1, rule_format, OF conjI [OF h1 conjI [OF h3 h4]]]
  note pt0 = th [THEN conjunct2, rule_format, OF conjI [OF h2 conjI [OF h5 h3]], unfolded cols]
  from td0 have td: "create_team_divisions_relationship small_db workbook_unresolved =
     (small_db\<lparr>leagueteamdivisions := [\<lparr>td_leagueTeamId = 1, td_leagueDivisionId = 1\<rparr>]\<rparr>, Inr 1)"
    by (simp add: teams_dict_of_def divisions_dict_of_def id_dict_def
        small_db_def empty_db_def teams_sheet_unresolved_def lookup_id_def lookup_cell_def Let_def)
  from pt0 have pt: "create_team_players_relationship small_db workbook_unresolved =
     (small_db\<lparr>leagueplayerteams :=
         [\<lparr>pt_leaguePlayerId = 1, pt_leagueTeamId = 1, pt_active = True\<rparr>,
          \<lparr>pt_leaguePlayerId = 1, pt_leagueTeamId = 1, pt_active = False\<rparr>]\<rparr>, Inr 2)"
    by (simp add: teams_dict_of_def players_dict_of_def id_dict_def
        small_db_def empty_db_def players_sheet_unresolved_def
        lookup_id_def lookup_cell_def old_team_cell_def Let_def)
  from h1 h2 h3 h4 h5 td pt show ?thesis by blast
qed

text \<open>
  The claim as first stated fails when a table of previously inserted rows is empty: with
  no division in the database, the division name of the Teams row is unresolved, and the
  step raises \<open>KeyError\<close> while building the dictionary of divisions, before any name is
  looked up.
\<close>

theorem relationship_empty_table_counterexample:
  "Teams_sheet workbook_unresolved = Some teams_sheet_unresolved \<and>
   Teams_Division_name (hd teams_sheet_unresolved) = Some ''D1'' \<and>
   ''D1'' \<notin> set (map division_name (leaguedivision (small_db\<lparr>leaguedivision := []\<rparr>))) \<and>
   create_team_divisions_relationship (small_db\<lparr>leaguedivision := []\<rparr>) workbook_unresolved =
     (small_db\<lparr>leaguedivision := []\<rparr>, Inl KeyError)"
  by (simp add: create_team_divisions_relationship_def workbook_unresolved_def
      teams_sheet_unresolved_def teams_dict_of_def divisions_dict_of_def id_dict_def
      small_db_def empty_db_def)

subsection \<open>The sentinel rows of the Matches sheet\<close>



lemma comprehension_Inr:
  "comprehension f xs = Inr ys \<Longrightarrow> list_all2 (\<lambda>x y. f x = Inr y) xs ys"
  by (induction xs arbitrary: ys) (auto split: sum.splits)











section \<open>Properties of the statistics page\<close>

subsection \<open>Matchday order, cutoff and filtering\<close>

text \<open>The example of the spec: labels first seen in the order 3, 3, 1, 2, 2.\<close>

lemma first_seen_index_example:
  "map (first_seen_index [3, 3, 1, 2, 2 :: int]) [3, 3, 1, 2, 2] = [0, 0, 1, 2, 2]"
  by (simp add: first_seen_index_def)

lemma unique_fold_acc:
  "fold (\<lambda>x seen. if x \<in> set seen then seen else seen @ [x]) xs acc =
     acc @ filter (\<lambda>y. y \<notin> set acc) (fold (\<lambda>x seen. if x \<in> set seen then seen else seen @ [x]) xs [])"
proof (induction xs arbitrary: acc)
  case Nil
  show ?case by simp
next
  case (Cons x xs)
  let ?f = "\<lambda>x seen. if x \<in> set seen then seen else seen @ [x]"
  have one: "fold ?f xs [x] = [x] @ filter (\<lambda>y. y \<notin> set [x]) (fold ?f xs [])"
    by (rule Cons.IH)
  show ?case
  proof (cases "x \<in> set acc")
    case True
    have "fold ?f (x # xs) acc = acc @ filter (\<lambda>y. y \<notin> set acc) (fold ?f xs [])"
      using True Cons.IH[of acc] by simp
    also have "filter (\<lambda>y. y \<notin> set acc) (fold ?f xs []) = filter (\<lambda>y. y \<notin> set acc) (fold ?f (x # xs) [])"
      using True one by (auto intro: filter_cong)
    finally show ?thesis .
  next
    case False
    have "fold ?f (x # xs) acc = (acc @ [x]) @ filter (\<lambda>y. y \<notin> set (acc @ [x])) (fold ?f xs [])"
      using False Cons.IH[of "acc @ [x]"] by simp
    also have "\<dots> = acc @ filter (\<lambda>y. y \<notin> set acc) (fold ?f (x # xs) [])"
      using False one by (auto intro: filter_cong)
    finally show ?thesis .
  qed
qed

lemma get_unique_order_Nil: "get_unique_order [] = []"
  by (simp add: get_unique_order_def)

lemma get_unique_order_Cons:
  "get_unique_order (x # xs) = x # filter (\<lambda>y. y \<noteq> x) (get_unique_order xs)"
  using unique_fold_acc[of xs "[x]"] by (simp add: get_unique_order_def)

lemma set_get_unique_order: "set (get_unique_order xs) = set xs"
  by (induction xs) (auto simp: get_unique_order_Nil get_unique_order_Cons)

lemma distinct_get_unique_order: "distinct (get_unique_order xs)"
  by (induction xs) (auto simp: get_unique_order_Nil get_unique_order_Cons)

lemma takeWhile_filter_neq:
  "x \<noteq> v \<Longrightarrow> takeWhile (\<lambda>w. w \<noteq> v) (filter (\<lambda>y. y \<noteq> x) l) = filter (\<lambda>y. y \<noteq> x) (takeWhile (\<lambda>w. w \<noteq> v) l)"
  by (induction l) auto

lemma takeWhile_get_unique_order:
  "takeWhile (\<lambda>w. w \<noteq> v) (get_unique_order xs) = get_unique_order (takeWhile (\<lambda>w. w \<noteq> v) xs)"
  by (induction xs) (auto simp: get_unique_order_Nil get_unique_order_Cons takeWhile_filter_neq)

lemma first_seen_index_position:
  "first_seen_index labels v = length (takeWhile (\<lambda>w. w \<noteq> v) (get_unique_order labels))"
  by (simp add: first_seen_index_def takeWhile_get_unique_order
      distinct_card[OF distinct_get_unique_order, symmetric] set_get_unique_order)

lemma alist_update_fresh: "k \<notin> fst ` set al \<Longrightarrow> AList.update k v al = al @ [(k, v)]"
  by (induction al) auto

lemma md_dict_fold:
  "length is = length l \<Longrightarrow> distinct l \<Longrightarrow> set l \<inter> fst ` set acc = {} \<Longrightarrow>
     fold (\<lambda>(i, v) dict. AList.update v i dict) (zip is l) acc = acc @ zip l is"
proof (induction "is" l arbitrary: acc rule: list_induct2)
  case Nil
  show ?case by simp
next
  case (Cons i "is" v l)
  have "set l \<inter> fst ` set (acc @ [(v, i)]) = {}"
    using Cons.prems by auto
  with Cons show ?case by (simp add: alist_update_fresh)
qed

lemma md_dict_of_distinct:
  "distinct l \<Longrightarrow> md_dict_of l = zip l (map int [0..<length l])"
  using md_dict_fold[of "map int [0..<length l]" l "[]"]
  by (simp add: md_dict_of_def enumerate_py_def)

lemma map_of_zip_position:
  "v \<in> set l \<Longrightarrow>
     map_of (zip l (map int [k..<k + length l])) v = Some (int (k + length (takeWhile (\<lambda>w. w \<noteq> v) l)))"
proof (induction l arbitrary: k)
  case Nil
  then show ?case by simp
next
  case (Cons x l)
  have up: "[k..<k + length (x # l)] = k # [Suc k..<Suc k + length l]"
    by (simp add: upt_rec)
  show ?case
  proof (cases "x = v")
    case True
    then show ?thesis unfolding up by simp
  next
    case False
    with Cons.prems have "v \<in> set l" by simp
    from Cons.IH[OF this, of "Suc k"] False show ?thesis unfolding up by simp
  qed
qed

lemma md_dict_lookup:
  assumes "v \<in> set labels"
  shows "dict_get (md_dict_of (get_unique_order labels)) v = Inr (int (first_seen_index labels v))"
proof -
  have "v \<in> set (get_unique_order labels)" using assms by (simp add: set_get_unique_order)
  from map_of_zip_position[OF this, of 0] show ?thesis
    by (simp add: dict_get_def md_dict_of_distinct[OF distinct_get_unique_order] first_seen_index_position)
qed


lemma comprehension_all_Inr:
  "(\<And>x. x \<in> set xs \<Longrightarrow> f x = Inr (g x)) \<Longrightarrow> comprehension f xs = Inr (map g xs)"
  by (induction xs) auto

lemma positions_of_distinct:
  "distinct l \<Longrightarrow> (\<lambda>v. length (takeWhile (\<lambda>w. w \<noteq> v) l)) ` set l = {0..<length l}"
proof (induction l)
  case Nil
  show ?case by simp
next
  case (Cons x l)
  then have IH: "(\<lambda>v. length (takeWhile (\<lambda>w. w \<noteq> v) l)) ` set l = {0..<length l}"
    and fresh: "x \<notin> set l" by simp_all
  have "(\<lambda>v. length (takeWhile (\<lambda>w. w \<noteq> v) (x # l))) ` set l =
          Suc ` (\<lambda>v. length (takeWhile (\<lambda>w. w \<noteq> v) l)) ` set l"
    using fresh by (auto simp: image_iff)
  then have "(\<lambda>v. length (takeWhile (\<lambda>w. w \<noteq> v) (x # l))) ` set (x # l) = insert 0 (Suc ` {0..<length l})"
    using IH by simp
  also have "\<dots> = {0..<length (x # l)}"
    by (auto simp: image_iff less_Suc_eq_0_disj)
  finally show ?case .
qed

lemma first_seen_index_range:
  "first_seen_index labels ` set labels = {0..<length (get_unique_order labels)}"
proof -
  have "first_seen_index labels ` set labels =
          (\<lambda>v. length (takeWhile (\<lambda>w. w \<noteq> v) (get_unique_order labels))) ` set (get_unique_order labels)"
    by (simp add: set_get_unique_order first_seen_index_position)
  then show ?thesis
    by (simp add: positions_of_distinct[OF distinct_get_unique_order])
qed

lemma Max_int_upt:
  assumes "0 < n"
  shows "Max (int ` {0..<n}) = int (n - 1)"
proof (rule Max_eqI)
  show "finite (int ` {0..<n})" by simp
  show "y \<le> int (n - 1)" if "y \<in> int ` {0..<n}" for y
    using that by auto
  have "n - 1 \<in> {0..<n}" using assms by simp
  then show "int (n - 1) \<in> int ` {0..<n}" by (rule imageI)
qed

lemma py_max_Max: "xs \<noteq> [] \<Longrightarrow> py_max xs = Inr (Max (set xs))"
  by (cases xs) (simp_all add: py_max_def Max.set_eq_fold[symmetric])

lemma py_min_Min: "xs \<noteq> [] \<Longrightarrow> py_min xs = Inr (Min (set xs))"
  by (cases xs) (simp_all add: py_min_def Min.set_eq_fold[symmetric])

text \<open>
  C2. \<open>get_max_matchday_stats\<close> raises nothing and returns 1 when no division is selected,
  0 when the division has no match, the largest assigned matchday index of the division's
  matches when all of them are played, and otherwise \<open>max(0, k - 1)\<close> for \<open>k\<close> the smallest
  assigned index among the unplayed matches of the division.
\<close>

theorem get_max_matchday_stats_cutoff:
  "get_max_matchday_stats matches division =
     Inr (case division of
            None \<Rightarrow> 1
          | Some dv \<Rightarrow>
              (let matches_div = filter (\<lambda>m. lm_leagueDivisionId m = ld_id dv) matches;
                   not_played = filter (\<lambda>m. \<not> is_match_played m) matches_div
               in if matches_div = [] then 0
                  else if not_played = [] then Max (matchday_index matches dv ` set matches_div)
                  else max 0 (Min (matchday_index matches dv ` set not_played) - 1)))"
proof (cases division)
  case None
  then show ?thesis by (simp add: get_max_matchday_stats_def)
next
  case (Some dv)
  define matches_div where "matches_div = filter (\<lambda>m. lm_leagueDivisionId m = ld_id dv) matches"
  define labels where "labels = map lm_matchday matches_div"
  define not_played where "not_played = filter (\<lambda>m. \<not> is_match_played m) matches_div"
  define md_dict where "md_dict = md_dict_of (get_unique_order labels)"
  have index: "matchday_index matches dv m = int (first_seen_index labels (lm_matchday m))" for m
    by (simp add: matchday_index_def labels_def matches_div_def)
  have dict: "md_dict = zip (get_unique_order labels) (map int [0..<length (get_unique_order labels)])"
    by (simp add: md_dict_def md_dict_of_distinct[OF distinct_get_unique_order])
  have len: "length md_dict = length (get_unique_order labels)"
    by (simp add: dict)
  have empty: "length (get_unique_order labels) = 0 \<longleftrightarrow> matches_div = []"
    using set_get_unique_order[of labels] by (auto simp: labels_def)
  have look: "dict_get md_dict (lm_matchday m) = Inr (matchday_index matches dv m)"
    if "m \<in> set matches_div" for m
    using that by (simp add: md_dict_def index md_dict_lookup labels_def)
  have "set not_played \<subseteq> set matches_div"
    by (auto simp: not_played_def)
  then have vals: "comprehension (\<lambda>m. dict_get md_dict (lm_matchday m)) not_played =
      Inr (map (matchday_index matches dv) not_played)"
    by (intro comprehension_all_Inr look) auto
  have unfold: "get_max_matchday_stats matches division =
     (if length md_dict = 0 then Inr 0
      else if length (map (matchday_index matches dv) not_played) = 0 then py_max (map snd md_dict)
      else (case py_min (remdups (map (matchday_index matches dv) not_played)) of
              Inl e \<Rightarrow> Inl e
            | Inr min_md_val_no_play \<Rightarrow> Inr (max 0 (min_md_val_no_play - 1))))"
    using vals
    by (simp add: get_max_matchday_stats_def Some Let_def matches_div_def[symmetric]
        labels_def[symmetric] not_played_def[symmetric] md_dict_def[symmetric])
  show ?thesis
  proof (cases "matches_div = []")
    case True
    then show ?thesis
      using unfold len empty by (simp add: Some matches_div_def[symmetric])
  next
    case nonempty: False
    then have pos: "0 < length (get_unique_order labels)" using empty by simp
    show ?thesis
    proof (cases "not_played = []")
      case True
      have "map snd md_dict = map int [0..<length (get_unique_order labels)]"
        by (simp add: dict)
      then have "py_max (map snd md_dict) = Inr (Max (int ` {0..<length (get_unique_order labels)}))"
        using pos by (simp add: py_max_Max)
      moreover have "matchday_index matches dv ` set matches_div =
          int ` {0..<length (get_unique_order labels)}"
      proof -
        have "matchday_index matches dv ` set matches_div =
            int ` (first_seen_index labels ` set labels)"
          by (simp add: index[abs_def] labels_def image_image)
        then show ?thesis by (simp only: first_seen_index_range)
      qed
      ultimately show ?thesis
        using unfold len empty nonempty True
        by (simp add: Some matches_div_def[symmetric] not_played_def[symmetric])
    next
      case False
      then have "py_min (remdups (map (matchday_index matches dv) not_played)) =
          Inr (Min (matchday_index matches dv ` set not_played))"
        by (simp add: py_min_Min)
      then show ?thesis
        using unfold len empty nonempty False
        by (simp add: Some matches_div_def[symmetric] not_played_def[symmetric])
    qed
  qed
qed

lemma filter_loop_eq:
  assumes "\<And>m. m \<in> set ms \<Longrightarrow> dict_get md_dict (lm_matchday m) = Inr (index m)"
  shows "filter_loop md_dict team_name sel ms acc =
     Inr (acc @ filter (\<lambda>m. fst sel \<le> index m \<and> index m \<le> snd sel \<and>
                           (case team_name of None \<Rightarrow> True
                            | Some t \<Rightarrow> t \<in> set (map lmd_team_name (lm_detail m)))) ms)"
  using assms
proof (induction ms arbitrary: acc)
  case Nil
  show ?case by simp
next
  case (Cons m ms)
  have any: "any_team t m \<longleftrightarrow> t \<in> set (map lmd_team_name (lm_detail m))" for t
    by (auto simp: any_team_def list_ex_iff)
  have here: "dict_get md_dict (lm_matchday m) = Inr (index m)"
    by (rule Cons.prems) simp
  have rest: "filter_loop md_dict team_name sel ms acc' =
     Inr (acc' @ filter (\<lambda>m. fst sel \<le> index m \<and> index m \<le> snd sel \<and>
                           (case team_name of None \<Rightarrow> True
                            | Some t \<Rightarrow> t \<in> set (map lmd_team_name (lm_detail m)))) ms)" for acc'
    by (rule Cons.IH) (simp add: Cons.prems)
  have team: "(case team_name of None \<Rightarrow> True | Some t \<Rightarrow> any_team t m) \<longleftrightarrow>
      (case team_name of None \<Rightarrow> True | Some t \<Rightarrow> t \<in> set (map lmd_team_name (lm_detail m)))"
    by (cases team_name) (simp_all add: any)
  show ?case
    by (simp add: here rest team del: set_map)
qed

text \<open>
  C3. \<open>filter_matches\<close> raises nothing. With no division selected it returns the list it
  was given; otherwise it keeps, in their order, exactly the matches of the selected
  division whose assigned matchday index lies between the two bounds, both included, and,
  when a team name is given, among whose details a team of that name appears.
\<close>

theorem filter_matches_keeps:
  "filter_matches matches team_name division matchdays_select =
     Inr (case division of
            None \<Rightarrow> matches
          | Some dv \<Rightarrow>
              filter (\<lambda>m. lm_leagueDivisionId m = ld_id dv \<and>
                          fst matchdays_select \<le> matchday_index matches dv m \<and>
                          matchday_index matches dv m \<le> snd matchdays_select \<and>
                          (case team_name of
                             None \<Rightarrow> True
                           | Some t \<Rightarrow> t \<in> set (map lmd_team_name (lm_detail m)))) matches)"
proof (cases division)
  case None
  then show ?thesis by (simp add: filter_matches_def)
next
  case (Some dv)
  define matches_div where "matches_div = filter (\<lambda>m. lm_leagueDivisionId m = ld_id dv) matches"
  have look: "dict_get (md_dict_of (get_unique_order (map lm_matchday matches_div))) (lm_matchday m) =
      Inr (matchday_index matches dv m)" if "m \<in> set matches_div" for m
    using that by (simp add: matchday_index_def matches_div_def[symmetric] md_dict_lookup)
  have "filter_matches matches team_name division matchdays_select =
      filter_loop (md_dict_of (get_unique_order (map lm_matchday matches_div))) team_name
        matchdays_select matches_div []"
    by (simp add: filter_matches_def Some matches_div_def Let_def)
  also have "\<dots> = Inr ([] @ filter (\<lambda>m. fst matchdays_select \<le> matchday_index matches dv m \<and>
                          matchday_index matches dv m \<le> snd matchdays_select \<and>
                          (case team_name of
                             None \<Rightarrow> True
                           | Some t \<Rightarrow> t \<in> set (map lmd_team_name (lm_detail m)))) matches_div)"
    by (rule filter_loop_eq) (rule look)
  finally show ?thesis
    by (simp add: Some matches_div_def conj_commute conj_left_commute cong: conj_cong)
qed

subsection \<open>The aggregate and the roster\<close>

lemma fold_append_concat: "fold (\<lambda>x acc. acc @ h x) xs acc0 = acc0 @ concat (map h xs)"
  by (induction xs arbitrary: acc0) auto

lemma roster_ids:
  "fold (\<lambda>team ids. if A team then (if B team then ids @ g team else ids) else ids) teams [] =
     concat (map (\<lambda>team. if A team \<and> B team then g team else []) teams)"
proof -
  have "(\<lambda>team ids. if A team then (if B team then ids @ g team else ids) else ids) =
        (\<lambda>team ids. ids @ (if A team \<and> B team then g team else []))"
    by (intro ext) simp
  then show ?thesis by (simp add: fold_append_concat)
qed

lemma get_stats_member:
  assumes "ps \<in> set (get_stats gsl sum_sheets matches_filter teams players div_select team_name_select)"
  shows "\<exists>p. ps_player ps = Some p \<and>
         (\<exists>team \<in> set teams.
            (case div_select of
               None \<Rightarrow> True
             | Some dv \<Rightarrow> ld_id dv \<in> set (map ltd_leagueDivisionId (lt_divisions team))) \<and>
            (case team_name_select of None \<Rightarrow> True | Some t \<Rightarrow> lt_name team = t) \<and>
            (\<exists>pt \<in> set (lt_players team). lpt_active pt \<and> lp_id (lpt_player pt) = lp_id p))"
proof -
  let ?A = "\<lambda>team. case div_select of
               None \<Rightarrow> True
             | Some dv \<Rightarrow> ld_id dv \<in> set (map ltd_leagueDivisionId (lt_divisions team))"
  let ?B = "\<lambda>team. case team_name_select of None \<Rightarrow> True | Some t \<Rightarrow> lt_name team = t"
  let ?g = "\<lambda>team. map (\<lambda>p. lp_id (lpt_player p)) (filter lpt_active (lt_players team))"
  from assms obtain p where p: "ps_player ps = Some p"
    and "lp_id p \<in> set (concat (map (\<lambda>team. if ?A team \<and> ?B team then ?g team else []) teams))"
    unfolding get_stats_def Let_def roster_ids by (auto split: option.splits)
  then obtain team where team: "team \<in> set teams" "?A team" "?B team"
    and "lp_id p \<in> set (?g team)"
    by (auto split: if_splits)
  then obtain pt where pt: "pt \<in> set (lt_players team)" "lpt_active pt" "lp_id (lpt_player pt) = lp_id p"
    by auto
  from pt have "\<exists>pt \<in> set (lt_players team). lpt_active pt \<and> lp_id (lpt_player pt) = lp_id p"
    by blast
  with team have "\<exists>team \<in> set teams. ?A team \<and> ?B team \<and>
      (\<exists>pt \<in> set (lt_players team). lpt_active pt \<and> lp_id (lpt_player pt) = lp_id p)"
    by blast
  with p show ?thesis by blast
qed

lemma show_missing_stats_member:
  "m \<in> set matches_filter \<Longrightarrow> ps \<in> set (gsl players m) \<Longrightarrow> ps_player ps = None \<Longrightarrow>
     (ps, m) \<in> set (show_missing_stats gsl matches_filter players)"
  unfolding show_missing_stats_def fold_append_concat
  by auto

text \<open>
  C4. Every stat sheet that \<open>get_stats\<close> returns has a player, and the id of that player
  is that of an active player of some team that passes the division filter and the team
  filter. So a sheet whose player is active on no such team is not returned, and an orphan
  sheet of a filtered match is not returned either, while \<open>show_missing_stats\<close> lists it.
\<close>

theorem get_stats_active_roster:
  "(\<forall>ps \<in> set (get_stats gsl sum_sheets matches_filter teams players div_select team_name_select).
      \<exists>p. ps_player ps = Some p \<and>
          (\<exists>team \<in> set teams.
             (case div_select of
                None \<Rightarrow> True
              | Some dv \<Rightarrow> ld_id dv \<in> set (map ltd_leagueDivisionId (lt_divisions team))) \<and>
             (case team_name_select of None \<Rightarrow> True | Some t \<Rightarrow> lt_name team = t) \<and>
             (\<exists>pt \<in> set (lt_players team). lpt_active pt \<and> lp_id (lpt_player pt) = lp_id p))) \<and>
   (\<forall>ps p. ps_player ps = Some p \<and>
      \<not> (\<exists>team \<in> set teams.
             (case div_select of
                None \<Rightarrow> True
              | Some dv \<Rightarrow> ld_id dv \<in> set (map ltd_leagueDivisionId (lt_divisions team))) \<and>
             (case team_name_select of None \<Rightarrow> True | Some t \<Rightarrow> lt_name team = t) \<and>
             (\<exists>pt \<in> set (lt_players team). lpt_active pt \<and> lp_id (lpt_player pt) = lp_id p)) \<longrightarrow>
      ps \<notin> set (get_stats gsl sum_sheets matches_filter teams players div_select team_name_select)) \<and>
   (\<forall>m \<in> set matches_filter. \<forall>ps \<in> set (gsl players m).
      ps_player ps = None \<longrightarrow>
        ps \<notin> set (get_stats gsl sum_sheets matches_filter teams players div_select team_name_select) \<and>
        (ps, m) \<in> set (show_missing_stats gsl matches_filter players))"
proof (intro conjI ballI allI impI)
  fix ps :: player_stat_sheet
  assume "ps \<in> set (get_stats gsl sum_sheets matches_filter teams players div_select team_name_select)"
  then show "\<exists>p. ps_player ps = Some p \<and>
          (\<exists>team \<in> set teams.
             (case div_select of
                None \<Rightarrow> True
              | Some dv \<Rightarrow> ld_id dv \<in> set (map ltd_leagueDivisionId (lt_divisions team))) \<and>
             (case team_name_select of None \<Rightarrow> True | Some t \<Rightarrow> lt_name team = t) \<and>
             (\<exists>pt \<in> set (lt_players team). lpt_active pt \<and> lp_id (lpt_player pt) = lp_id p))"
    by (rule get_stats_member)
next
  fix ps :: player_stat_sheet and p :: league_player
  assume "ps_player ps = Some p \<and>
      \<not> (\<exists>team \<in> set teams.
             (case div_select of
                None \<Rightarrow> True
              | Some dv \<Rightarrow> ld_id dv \<in> set (map ltd_leagueDivisionId (lt_divisions team))) \<and>
             (case team_name_select of None \<Rightarrow> True | Some t \<Rightarrow> lt_name team = t) \<and>
             (\<exists>pt \<in> set (lt_players team). lpt_active pt \<and> lp_id (lpt_player pt) = lp_id p))"
  then show "ps \<notin> set (get_stats gsl sum_sheets matches_filter teams players div_select team_name_select)"
    using get_stats_member[of ps gsl sum_sheets matches_filter teams players div_select team_name_select]
    by auto
next
  fix ps :: player_stat_sheet
  assume "ps_player ps = None"
  then show "ps \<notin> set (get_stats gsl sum_sheets matches_filter teams players div_select team_name_select)"
    using get_stats_member[of ps gsl sum_sheets matches_filter teams players div_select team_name_select]
    by auto
next
  fix m :: league_match and ps :: player_stat_sheet
  assume "m \<in> set matches_filter" "ps \<in> set (gsl players m)" "ps_player ps = None"
  then show "(ps, m) \<in> set (show_missing_stats gsl matches_filter players)"
    by (rule show_missing_stats_member)
qed

theorem get_stats_active_roster_witness:
  "get_stats sheets_of_match (\<lambda>sheets. sheets) [match_one] [team_a] [player_ann, player_bob]
     None (Some ''A'') = [sheet_of (Some player_ann) ''ann''] \<and>
   (\<exists>pt \<in> set (lt_players team_a). lpt_active pt \<and> lp_id (lpt_player pt) = lp_id player_ann) \<and>
   sheet_of (Some player_bob) ''bob'' \<in> set (sheets_of_match [player_ann, player_bob] match_one) \<and>
   sheet_of (Some player_bob) ''bob'' \<notin>
     set (get_stats sheets_of_match (\<lambda>sheets. sheets) [match_one] [team_a] [player_ann, player_bob]
            None (Some ''A'')) \<and>
   sheet_of None ''zed'' \<in> set (sheets_of_match [player_ann, player_bob] match_one) \<and>
   ps_player (sheet_of None ''zed'') = None \<and>
   (sheet_of None ''zed'', match_one) \<in>
     set (show_missing_stats sheets_of_match [match_one] [player_ann, player_bob])"
proof -
  have run: "get_stats sheets_of_match (\<lambda>sheets. sheets) [match_one] [team_a] [player_ann, player_bob]
     None (Some ''A'') = [sheet_of (Some player_ann) ''ann'']"
    by (simp add: get_stats_def sheets_of_match_def team_a_def sheet_of_def player_ann_def player_bob_def)
  have orphan: "sheet_of None ''zed'' \<in> set (sheets_of_match [player_ann, player_bob] match_one)"
    and none: "ps_player (sheet_of None ''zed'') = None"
    and bob: "sheet_of (Some player_bob) ''bob'' \<in> set (sheets_of_match [player_ann, player_bob] match_one)"
    by (simp_all add: sheets_of_match_def sheet_of_def)
  have inactive: "\<not> (\<exists>team \<in> set [team_a].
             (case None :: league_division option of
                None \<Rightarrow> True
              | Some dv \<Rightarrow> ld_id dv \<in> set (map ltd_leagueDivisionId (lt_divisions team))) \<and>
             (case Some ''A'' of None \<Rightarrow> True | Some t \<Rightarrow> lt_name team = t) \<and>
             (\<exists>pt \<in> set (lt_players team). lpt_active pt \<and> lp_id (lpt_player pt) = lp_id player_bob))"
    by (simp add: team_a_def player_ann_def player_bob_def)
  note th = get_stats_active_roster [of sheets_of_match "\<lambda>sheets. sheets" "[match_one]" "[team_a]"
      "[player_ann, player_bob]" None "Some ''A''"]
  from th run have "\<exists>p. ps_player (sheet_of (Some player_ann) ''ann'') = Some p \<and>
          (\<exists>team \<in> set [team_a].
             (\<exists>pt \<in> set (lt_players team). lpt_active pt \<and> lp_id (lpt_player pt) = lp_id p))"
    by auto
  then have a: "\<exists>pt \<in> set (lt_players team_a). lpt_active pt \<and> lp_id (lpt_player pt) = lp_id player_ann"
    by (simp add: sheet_of_def)
  have "ps_player (sheet_of (Some player_bob) ''bob'') = Some player_bob"
    by (simp add: sheet_of_def)
  with th inactive have c: "sheet_of (Some player_bob) ''bob'' \<notin>
     set (get_stats sheets_of_match (\<lambda>sheets. sheets) [match_one] [team_a] [player_ann, player_bob]
            None (Some ''A''))"
    by blast
  from th orphan none have b: "(sheet_of None ''zed'', match_one) \<in>
     set (show_missing_stats sheets_of_match [match_one] [player_ann, player_bob])"
    by simp
  from run a bob c orphan none b show ?thesis by blast
qed

text \<open>The sheets that \<open>get_stats\<close> hands to the display all have a player.\<close>

lemma get_stats_all_resolved:
  "list_all (\<lambda>ps. ps_player ps \<noteq> None)
     (get_stats gsl sum_sheets matches_filter teams players div_select team_name_select)"
  unfolding list_all_iff
  using get_stats_member[of _ gsl sum_sheets matches_filter teams players div_select team_name_select]
  by fastforce

subsection \<open>Normalization\<close>

text \<open>
  C5. With normalization enabled \<open>treat_stat\<close> returns the expression
  \<open>stat / (gametime / (GAME_TIME * 2 * 60))\<close>, whose value on a row where the statistic is
  \<open>v\<close> and the playing time \<open>t\<close>, both finite and \<open>t\<close> and \<open>GAME_TIME\<close> not zero, is
  \<open>v / (t / (GAME_TIME * 2 * 60))\<close>. With normalization disabled it returns the statistic
  itself, whatever the playing-time expression is and evaluates to, zero included.
\<close>

theorem treat_stat_normalization:
  "treat_stat GAME_TIME stat True gametime = Div stat (Div gametime (Lit (GAME_TIME * 2 * 60))) \<and>
   treat_stat GAME_TIME stat False gametime = stat \<and>
   eval row (treat_stat GAME_TIME stat False gametime) = eval row stat \<and>
   (\<forall>v t. eval row stat = Inr (Number (Fin v)) \<and> eval row gametime = Inr (Number (Fin t)) \<and>
          t \<noteq> 0 \<and> GAME_TIME \<noteq> 0 \<longrightarrow>
      eval row (treat_stat GAME_TIME stat True gametime) =
        Inr (Number (Fin (v / (t / of_int (GAME_TIME * 2 * 60))))))"
  by (simp add: treat_stat_def)

theorem treat_stat_normalization_witness:
  "eval goals_row (Col ''stats.goals'') = Inr (Number (Fin 4)) \<and>
   eval goals_row (Col ''stats.gametime'') = Inr (Number (Fin 1800)) \<and>
   eval goals_row (treat_stat 5 (Col ''stats.goals'') True (Col ''stats.gametime'')) =
     Inr (Number (Fin (4 / (1800 / 600)))) \<and>
   eval idle_row (treat_stat 5 (Col ''stats.goals'') False (Col ''stats.gametime'')) =
     Inr (Number (Fin 4))"
proof -
  have v: "eval goals_row (Col ''stats.goals'') = Inr (Number (Fin 4))"
    and t: "eval goals_row (Col ''stats.gametime'') = Inr (Number (Fin 1800))"
    and i: "eval idle_row (Col ''stats.goals'') = Inr (Number (Fin 4))"
    by (simp_all add: goals_row_def idle_row_def)
  note th = treat_stat_normalization [of 5 "Col ''stats.goals''" "Col ''stats.gametime''"]
  from th [of goals_row] v t
  have a: "eval goals_row (treat_stat 5 (Col ''stats.goals'') True (Col ''stats.gametime'')) =
     Inr (Number (Fin (4 / (1800 / of_int (5 * 2 * 60)))))"
    by (elim conjE allE[of _ 4] allE[of _ 1800]) simp
  from th [of idle_row] i
  have b: "eval idle_row (treat_stat 5 (Col ''stats.goals'') False (Col ''stats.gametime'')) =
     Inr (Number (Fin 4))"
    by simp
  from v t a b show ?thesis by simp
qed

subsection \<open>Pass success\<close>

lemma fdiv_of_int:
  "fdiv (Fin (of_int s)) (Fin (of_int a)) =
     (if a \<noteq> 0 then Fin (of_int s / of_int a)
      else if s = 0 then NaN else if 0 < s then PosInf else NegInf)"
  by simp

lemma select_frame_row:
  assumes "ps_player ps = Some p" and "in_int64 \<lfloor>st_gametime (ps_stats ps)\<rfloor>"
  shows "\<exists>row sel. frame_row ps = Inr row \<and>
     select_row (select_exprs GAME_TIME normalized) row = Inr sel \<and>
     map_of sel ''stats.gametime'' = Some (Number (Fin (of_int \<lfloor>st_gametime (ps_stats ps)\<rfloor>))) \<and>
     map_of sel ''stats.gamePosition'' = Some (Number (Fin (of_int (st_gamePosition (ps_stats ps))))) \<and>
     map_of (map (\<lambda>(name, v). (rename_column name, v)) sel) ''passSuccess'' =
       Some (Number (fdiv (Fin (of_int (st_passesSuccessful (ps_stats ps))))
                          (Fin (of_int (st_passesAttempted (ps_stats ps))))))"
proof (cases normalized)
  case True
  show ?thesis
    unfolding True
    by (simp add: assms frame_row_def select_row_def select_exprs_def treat_stat_def rename_column_def Let_def del: fdiv.simps)
next
  case False
  show ?thesis
    unfolding False
    by (simp add: assms frame_row_def select_row_def select_exprs_def treat_stat_def rename_column_def Let_def del: fdiv.simps)
qed

text \<open>A playing time outside \<open>Int64\<close> makes the selection raise.\<close>

lemma select_frame_row_overflow:
  assumes "ps_player ps = Some p" and "\<not> in_int64 \<lfloor>st_gametime (ps_stats ps)\<rfloor>"
  shows "\<exists>row. frame_row ps = Inr row \<and>
     select_row (select_exprs GAME_TIME normalized) row = Inl ComputeError"
  by (simp add: assms frame_row_def select_row_def select_exprs_def Let_def)

lemma comprehension_map:
  "comprehension f (map h xs) = comprehension (\<lambda>x. f (h x)) xs"
  by (induction xs) (auto split: sum.splits)

lemma comprehension_Inl:
  "x \<in> set xs \<Longrightarrow> f x = Inl e \<Longrightarrow> \<exists>e'. comprehension f xs = Inl e'"
  by (induction xs) (auto split: sum.splits)

text \<open>
  What \<open>display_stats\<close> displays for a non-empty list of sheets that all have a player and
  a playing time within \<open>Int64\<close>.
\<close>

lemma display_stats_table:
  assumes "statsheets \<noteq> []"
    and "list_all (\<lambda>ps. ps_player ps \<noteq> None \<and> in_int64 \<lfloor>st_gametime (ps_stats ps)\<rfloor>) statsheets"
  shows "\<exists>table.
            display_stats GAME_TIME statsheets normalized filter_players filter_position = Inr (Some table) \<and>
            map (\<lambda>row. map_of row ''passSuccess'') table =
              map (\<lambda>ps. Some (Number
                (if st_passesAttempted (ps_stats ps) \<noteq> 0
                 then Fin (of_int (st_passesSuccessful (ps_stats ps)) /
                           of_int (st_passesAttempted (ps_stats ps)))
                 else if st_passesSuccessful (ps_stats ps) = 0 then NaN
                 else if 0 < st_passesSuccessful (ps_stats ps) then PosInf
                 else NegInf)))
                (filter (\<lambda>ps. (if filter_players
                     then GAME_TIME * 2 * 60 \<le> \<lfloor>st_gametime (ps_stats ps)\<rfloor>
                     else True) \<and>
                    (case filter_position of
                       None \<Rightarrow> True
                     | Some pos \<Rightarrow> st_gamePosition (ps_stats ps) = pos)) statsheets)"
proof -
  define row_of where "row_of ps = (case frame_row ps of Inr r \<Rightarrow> r | Inl e \<Rightarrow> [])"
    for ps :: player_stat_sheet
  define sel_of where
    "sel_of ps = (case select_row (select_exprs GAME_TIME normalized) (row_of ps) of
                    Inr r \<Rightarrow> r | Inl e \<Rightarrow> [])"
    for ps :: player_stat_sheet
  define kept where
    "kept ps \<longleftrightarrow> (if filter_players
                                then GAME_TIME * 2 * 60 \<le> \<lfloor>st_gametime (ps_stats ps)\<rfloor>
                                else True) \<and>
                               (case filter_position of
                                  None \<Rightarrow> True
                                | Some pos \<Rightarrow> st_gamePosition (ps_stats ps) = pos)"
    for ps :: player_stat_sheet
  have facts: "frame_row ps = Inr (row_of ps) \<and>
      select_row (select_exprs GAME_TIME normalized) (row_of ps) = Inr (sel_of ps) \<and>
      map_of (sel_of ps) ''stats.gametime'' = Some (Number (Fin (of_int \<lfloor>st_gametime (ps_stats ps)\<rfloor>))) \<and>
      map_of (sel_of ps) ''stats.gamePosition'' = Some (Number (Fin (of_int (st_gamePosition (ps_stats ps))))) \<and>
      map_of (map (\<lambda>(name, v). (rename_column name, v)) (sel_of ps)) ''passSuccess'' =
        Some (Number (fdiv (Fin (of_int (st_passesSuccessful (ps_stats ps))))
                           (Fin (of_int (st_passesAttempted (ps_stats ps))))))"
    if "ps \<in> set statsheets" for ps
  proof -
    from that assms(2) obtain p where "ps_player ps = Some p"
      and "in_int64 \<lfloor>st_gametime (ps_stats ps)\<rfloor>"
      by (auto simp: list_all_iff)
    from select_frame_row[OF this, of GAME_TIME normalized] show ?thesis
      by (auto simp: row_of_def sel_of_def simp del: fdiv.simps)
  qed
  have rows: "comprehension frame_row statsheets = Inr (map row_of statsheets)"
    by (rule comprehension_all_Inr) (simp add: facts)
  have sels: "comprehension (select_row (select_exprs GAME_TIME normalized)) (map row_of statsheets) =
      Inr (map sel_of statsheets)"
    unfolding comprehension_map
    by (rule comprehension_all_Inr) (simp add: facts)
  have keep: "keep_time GAME_TIME filter_players (sel_of ps) \<and> keep_position filter_position (sel_of ps)
      \<longleftrightarrow> kept ps" if "ps \<in> set statsheets" for ps
  proof -
    from facts[OF that]
    have g: "map_of (sel_of ps) ''stats.gametime'' = Some (Number (Fin (of_int \<lfloor>st_gametime (ps_stats ps)\<rfloor>)))"
      and q: "map_of (sel_of ps) ''stats.gamePosition'' = Some (Number (Fin (of_int (st_gamePosition (ps_stats ps)))))"
      by blast+
    have kt: "keep_time GAME_TIME filter_players (sel_of ps) \<longleftrightarrow>
        (if filter_players then GAME_TIME * 2 * 60 \<le> \<lfloor>st_gametime (ps_stats ps)\<rfloor> else True)"
      unfolding keep_time_def g by (simp only: option.case cell.case num.case of_int_le_iff)
    have kp: "keep_position filter_position (sel_of ps) \<longleftrightarrow>
        (case filter_position of None \<Rightarrow> True | Some pos \<Rightarrow> st_gamePosition (ps_stats ps) = pos)"
      unfolding keep_position_def q
      by (cases filter_position) (simp_all only: option.case cell.case num.case of_int_eq_iff)
    show ?thesis unfolding kt kp kept_def ..
  qed
  have filt: "filter (\<lambda>x. keep_time GAME_TIME filter_players x \<and> keep_position filter_position x)
        (map sel_of statsheets) = map sel_of (filter kept statsheets)"
    using keep by (induction statsheets) auto
  have run: "display_stats GAME_TIME statsheets normalized filter_players filter_position =
      Inr (Some (map (map (\<lambda>(name, v). (rename_column name, v))) (map sel_of (filter kept statsheets))))"
    using assms(1) by (simp add: display_stats_def rows sels filt)
  have "map (\<lambda>row. map_of row ''passSuccess'')
          (map (map (\<lambda>(name, v). (rename_column name, v))) (map sel_of (filter kept statsheets))) =
        map (\<lambda>ps. Some (Number
                (if st_passesAttempted (ps_stats ps) \<noteq> 0
                 then Fin (of_int (st_passesSuccessful (ps_stats ps)) /
                           of_int (st_passesAttempted (ps_stats ps)))
                 else if st_passesSuccessful (ps_stats ps) = 0 then NaN
                 else if 0 < st_passesSuccessful (ps_stats ps) then PosInf
                 else NegInf)))
          (filter kept statsheets)"
    using facts by (simp add: comp_def fdiv_of_int del: fdiv.simps)
  with run show ?thesis
    unfolding kept_def[abs_def] by blast
qed

text \<open>When a table is displayed, every sheet has a player and a playing time within \<open>Int64\<close>.\<close>

lemma display_stats_Some:
  assumes "display_stats GAME_TIME statsheets normalized filter_players filter_position = Inr (Some table)"
  shows "statsheets \<noteq> [] \<and>
         list_all (\<lambda>ps. ps_player ps \<noteq> None \<and> in_int64 \<lfloor>st_gametime (ps_stats ps)\<rfloor>) statsheets"
proof -
  have nonempty: "statsheets \<noteq> []"
    using assms by (auto simp: display_stats_def)
  have player: "ps_player ps \<noteq> None" if "ps \<in> set statsheets" for ps
  proof
    assume "ps_player ps = None"
    then have "frame_row ps = Inl AttributeError" by (simp add: frame_row_def)
    from comprehension_Inl[of ps statsheets frame_row, OF that this]
    obtain e where "comprehension frame_row statsheets = Inl e"
      by blast
    with assms show False by (simp add: display_stats_def)
  qed
  have rows: "comprehension frame_row statsheets =
      Inr (map (\<lambda>ps. case frame_row ps of Inr r \<Rightarrow> r | Inl e \<Rightarrow> []) statsheets)"
  proof (rule comprehension_all_Inr)
    fix ps
    assume "ps \<in> set statsheets"
    from player[OF this] obtain p where "ps_player ps = Some p" by auto
    then show "frame_row ps = Inr (case frame_row ps of Inr r \<Rightarrow> r | Inl e \<Rightarrow> [])"
      by (simp add: frame_row_def)
  qed
  have range: "in_int64 \<lfloor>st_gametime (ps_stats ps)\<rfloor>" if "ps \<in> set statsheets" for ps
  proof (rule ccontr)
    assume out: "\<not> in_int64 \<lfloor>st_gametime (ps_stats ps)\<rfloor>"
    from player[OF that] obtain p where "ps_player ps = Some p" by auto
    from select_frame_row_overflow[OF this out, of GAME_TIME normalized]
    have "select_row (select_exprs GAME_TIME normalized)
            (case frame_row ps of Inr r \<Rightarrow> r | Inl e \<Rightarrow> []) = Inl ComputeError"
      by auto
    from comprehension_Inl[of ps statsheets
        "\<lambda>ps. select_row (select_exprs GAME_TIME normalized)
            (case frame_row ps of Inr r \<Rightarrow> r | Inl e \<Rightarrow> [])", OF that this]
    obtain e where "comprehension (\<lambda>ps. select_row (select_exprs GAME_TIME normalized)
            (case frame_row ps of Inr r \<Rightarrow> r | Inl e \<Rightarrow> [])) statsheets = Inl e"
      by blast
    with assms nonempty show False
      by (simp add: display_stats_def rows comprehension_map)
  qed
  from nonempty player range show ?thesis by (simp add: list_all_iff)
qed

text \<open>
  C8. The column \<open>passSuccess\<close> is selected as the plain quotient of the columns
  \<open>stats.passesSuccessful\<close> and \<open>stats.passesAttempted\<close>, under no condition. On a non-empty
  list of sheets that all have a player and a playing time within \<open>Int64\<close>,
  \<open>display_stats\<close> raises nothing and displays a table, whatever the pass counts are. And
  whenever it displays a table, the table has, for each sheet that passes the playing-time
  and position filters, in order, this pass success: the number of successful passes
  divided by the number of attempted ones when passes were attempted, and with no pass
  attempted the non-finite value of the division by zero (\<open>NaN\<close> for \<open>0/0\<close>, otherwise the
  infinity of the sign of the dividend), neither an exception nor a special case.
\<close>

theorem display_stats_pass_success:
  "Alias (Div (Col ''stats.passesSuccessful'') (Col ''stats.passesAttempted'')) ''stats.passSuccess''
     \<in> set (select_exprs GAME_TIME normalized) \<and>
   (statsheets \<noteq> [] \<and>
    list_all (\<lambda>ps. ps_player ps \<noteq> None \<and> in_int64 \<lfloor>st_gametime (ps_stats ps)\<rfloor>) statsheets \<longrightarrow>
      (\<exists>table. display_stats GAME_TIME statsheets normalized filter_players filter_position =
                 Inr (Some table))) \<and>
   (\<forall>table.
      display_stats GAME_TIME statsheets normalized filter_players filter_position = Inr (Some table) \<longrightarrow>
      map (\<lambda>row. map_of row ''passSuccess'') table =
        map (\<lambda>ps. Some (Number
                (if st_passesAttempted (ps_stats ps) \<noteq> 0
                 then Fin (of_int (st_passesSuccessful (ps_stats ps)) /
                           of_int (st_passesAttempted (ps_stats ps)))
                 else if st_passesSuccessful (ps_stats ps) = 0 then NaN
                 else if 0 < st_passesSuccessful (ps_stats ps) then PosInf
                 else NegInf)))
          (filter (\<lambda>ps. (if filter_players
                     then GAME_TIME * 2 * 60 \<le> \<lfloor>st_gametime (ps_stats ps)\<rfloor>
                     else True) \<and>
                    (case filter_position of
                       None \<Rightarrow> True
                     | Some pos \<Rightarrow> st_gamePosition (ps_stats ps) = pos)) statsheets))"
proof (intro conjI allI impI)
  show "Alias (Div (Col ''stats.passesSuccessful'') (Col ''stats.passesAttempted'')) ''stats.passSuccess''
           \<in> set (select_exprs GAME_TIME normalized)"
    by (simp add: select_exprs_def Let_def)
next
  assume "statsheets \<noteq> [] \<and>
    list_all (\<lambda>ps. ps_player ps \<noteq> None \<and> in_int64 \<lfloor>st_gametime (ps_stats ps)\<rfloor>) statsheets"
  then have "statsheets \<noteq> []"
    and "list_all (\<lambda>ps. ps_player ps \<noteq> None \<and> in_int64 \<lfloor>st_gametime (ps_stats ps)\<rfloor>) statsheets"
    by blast+
  from display_stats_table[OF this, of GAME_TIME normalized filter_players filter_position]
  show "\<exists>table. display_stats GAME_TIME statsheets normalized filter_players filter_position =
                 Inr (Some table)"
    by blast
next
  fix table
  assume shown: "display_stats GAME_TIME statsheets normalized filter_players filter_position =
    Inr (Some table)"
  from display_stats_Some[OF shown]
  have "statsheets \<noteq> []"
    and "list_all (\<lambda>ps. ps_player ps \<noteq> None \<and> in_int64 \<lfloor>st_gametime (ps_stats ps)\<rfloor>) statsheets"
    by blast+
  from display_stats_table[OF this, of GAME_TIME normalized filter_players filter_position] shown
  show "map (\<lambda>row. map_of row ''passSuccess'') table =
        map (\<lambda>ps. Some (Number
                (if st_passesAttempted (ps_stats ps) \<noteq> 0
                 then Fin (of_int (st_passesSuccessful (ps_stats ps)) /
                           of_int (st_passesAttempted (ps_stats ps)))
                 else if st_passesSuccessful (ps_stats ps) = 0 then NaN
                 else if 0 < st_passesSuccessful (ps_stats ps) then PosInf
                 else NegInf)))
          (filter (\<lambda>ps. (if filter_players
                     then GAME_TIME * 2 * 60 \<le> \<lfloor>st_gametime (ps_stats ps)\<rfloor>
                     else True) \<and>
                    (case filter_position of
                       None \<Rightarrow> True
                     | Some pos \<Rightarrow> st_gamePosition (ps_stats ps) = pos)) statsheets)"
    by auto
qed

theorem display_stats_pass_success_witness:
  "[passing_sheet, zero_attempts_sheet] \<noteq> [] \<and>
   list_all (\<lambda>ps. ps_player ps \<noteq> None \<and> in_int64 \<lfloor>st_gametime (ps_stats ps)\<rfloor>)
     [passing_sheet, zero_attempts_sheet] \<and>
   st_passesSuccessful (ps_stats passing_sheet) = 3 \<and>
   st_passesAttempted (ps_stats passing_sheet) = 4 \<and>
   st_passesAttempted (ps_stats zero_attempts_sheet) = 0 \<and>
   (\<exists>table. display_stats 5 [passing_sheet, zero_attempts_sheet] False False None = Inr (Some table) \<and>
            map (\<lambda>row. map_of row ''passSuccess'') table =
              [Some (Number (Fin (3 / 4))), Some (Number NaN)])"
proof -
  have h1: "[passing_sheet, zero_attempts_sheet] \<noteq> []" by simp
  have h2: "list_all (\<lambda>ps. ps_player ps \<noteq> None \<and> in_int64 \<lfloor>st_gametime (ps_stats ps)\<rfloor>)
      [passing_sheet, zero_attempts_sheet]"
    by (simp add: passing_sheet_def zero_attempts_sheet_def sheet_of_def zero_stats_def in_int64_def)
  have p: "st_passesSuccessful (ps_stats passing_sheet) = 3"
      "st_passesAttempted (ps_stats passing_sheet) = 4"
    and z: "st_passesSuccessful (ps_stats zero_attempts_sheet) = 0"
      "st_passesAttempted (ps_stats zero_attempts_sheet) = 0"
    by (simp_all add: passing_sheet_def zero_attempts_sheet_def sheet_of_def zero_stats_def)
  note th = display_stats_pass_success [of 5 False "[passing_sheet, zero_attempts_sheet]" False None]
  from th h1 h2 obtain table where
    shown: "display_stats 5 [passing_sheet, zero_attempts_sheet] False False None = Inr (Some table)"
    by blast
  with th have "map (\<lambda>row. map_of row ''passSuccess'') table =
      map (\<lambda>ps. Some (Number
                (if st_passesAttempted (ps_stats ps) \<noteq> 0
                 then Fin (of_int (st_passesSuccessful (ps_stats ps)) /
                           of_int (st_passesAttempted (ps_stats ps)))
                 else if st_passesSuccessful (ps_stats ps) = 0 then NaN
                 else if 0 < st_passesSuccessful (ps_stats ps) then PosInf
                 else NegInf)))
        (filter (\<lambda>ps. (if False then 5 * 2 * 60 \<le> \<lfloor>st_gametime (ps_stats ps)\<rfloor> else True) \<and>
                    (case None :: int option of
                       None \<Rightarrow> True
                     | Some pos \<Rightarrow> st_gamePosition (ps_stats ps) = pos))
           [passing_sheet, zero_attempts_sheet])"
    by blast
  then have "map (\<lambda>row. map_of row ''passSuccess'') table =
      [Some (Number (Fin (3 / 4))), Some (Number NaN)]"
    by (simp add: p z)
  with shown have "\<exists>table. display_stats 5 [passing_sheet, zero_attempts_sheet] False False None =
        Inr (Some table) \<and>
      map (\<lambda>row. map_of row ''passSuccess'') table =
        [Some (Number (Fin (3 / 4))), Some (Number NaN)]"
    by (intro exI[of _ table] conjI)
  with h1 h2 p(1) p(2) z(2) show ?thesis by - (intro conjI; assumption)
qed

text \<open>
  A playing time of \<open>2^63\<close> seconds is outside \<open>Int64\<close>: the cast raises and nothing is
  displayed.
\<close>

lemma display_stats_cast_overflow:
  "display_stats 5
     [zero_attempts_sheet\<lparr>ps_stats := zero_stats\<lparr>st_gametime := 2 ^ 63\<rparr>\<rparr>] False False None =
     Inl ComputeError"
  by (simp add: display_stats_def frame_row_def select_row_def select_exprs_def treat_stat_def
      zero_attempts_sheet_def sheet_of_def zero_stats_def player_ann_def in_int64_def Let_def)

section \<open>Properties of the export\<close>

subsection \<open>The greedy repetitions\<close>

lemma literal_Some_iff: "literal p s = Some r \<longleftrightarrow> s = p @ r"
  by (induction p s rule: literal.induct) auto

lemma starts_with_iff: "starts_with p s \<longleftrightarrow> (\<exists>r. s = p @ r)"
  by (cases "literal p s") (auto simp: starts_with_def literal_Some_iff[symmetric])

lemma contains_iff: "contains sub s \<longleftrightarrow> (\<exists>ps ss. s = ps @ sub @ ss)"
proof (induction s)
  case Nil
  show ?case by (auto simp: starts_with_iff)
next
  case (Cons c cs)
  show ?case
  proof
    assume "contains sub (c # cs)"
    then consider "starts_with sub (c # cs)" | "contains sub cs"
      by (auto split: if_splits)
    then show "\<exists>ps ss. c # cs = ps @ sub @ ss"
    proof cases
      case 1
      then obtain r where "c # cs = [] @ sub @ r" by (auto simp: starts_with_iff)
      then show ?thesis by blast
    next
      case 2
      then obtain ps ss where "cs = ps @ sub @ ss" using Cons.IH by blast
      then have "c # cs = (c # ps) @ sub @ ss" by simp
      then show ?thesis by blast
    qed
  next
    assume "\<exists>ps ss. c # cs = ps @ sub @ ss"
    then obtain ps ss where eq: "c # cs = ps @ sub @ ss" by blast
    show "contains sub (c # cs)"
    proof (cases ps)
      case Nil
      with eq have "starts_with sub (c # cs)" by (auto simp: starts_with_iff)
      then show ?thesis by simp
    next
      case (Cons a ps')
      with eq have "cs = ps' @ sub @ ss" by simp
      then have "contains sub cs" using Cons.IH by blast
      then show ?thesis by simp
    qed
  qed
qed

lemma greedy_dot_None:
  "(\<And>p r. s = p @ r \<Longrightarrow> line_feed \<notin> set p \<Longrightarrow> k (taken @ p) r = None) \<Longrightarrow>
     greedy_dot k taken s = None"
proof (induction s arbitrary: taken)
  case Nil
  from Nil[of "[]" "[]"] show ?case by simp
next
  case (Cons c cs)
  have here: "k taken (c # cs) = None"
    using Cons.prems[of "[]" "c # cs"] by simp
  show ?case
  proof (cases "c = line_feed")
    case True
    with here show ?thesis by simp
  next
    case False
    have "greedy_dot k (taken @ [c]) cs = None"
    proof (rule Cons.IH)
      fix p r
      assume "cs = p @ r" "line_feed \<notin> set p"
      with False Cons.prems[of "c # p" r] show "k ((taken @ [c]) @ p) r = None" by simp
    qed
    with here False show ?thesis by simp
  qed
qed

lemma greedy_dot_split:
  assumes "line_feed \<notin> set p" and "k (taken @ p) r = Some v"
    and "\<And>p' r'. p' \<noteq> [] \<Longrightarrow> r = p' @ r' \<Longrightarrow> line_feed \<notin> set p' \<Longrightarrow> k (taken @ p @ p') r' = None"
  shows "greedy_dot k taken (p @ r) = Some v"
  using assms
proof (induction p arbitrary: taken)
  case Nil
  show ?case
  proof (cases r)
    case Nil
    with Nil.prems(2) show ?thesis by simp
  next
    case (Cons c cs)
    show ?thesis
    proof (cases "c = line_feed")
      case True
      with Cons Nil.prems(2) show ?thesis by simp
    next
      case False
      have "greedy_dot k (taken @ [c]) cs = None"
      proof (rule greedy_dot_None)
        fix p' r'
        assume "cs = p' @ r'" "line_feed \<notin> set p'"
        with False Cons Nil.prems(3)[of "c # p'" r'] show "k ((taken @ [c]) @ p') r' = None" by simp
      qed
      with Cons False Nil.prems(2) show ?thesis by simp
    qed
  qed
next
  case (Cons c p)
  have "greedy_dot k (taken @ [c]) (p @ r) = Some v"
  proof (rule Cons.IH)
    show "line_feed \<notin> set p" using Cons.prems(1) by simp
    show "k ((taken @ [c]) @ p) r = Some v" using Cons.prems(2) by simp
    show "k ((taken @ [c]) @ p @ p') r' = None"
      if "p' \<noteq> []" "r = p' @ r'" "line_feed \<notin> set p'" for p' r'
      using Cons.prems(3)[OF that] by simp
  qed
  with Cons.prems(1) show ?case by auto
qed

lemma greedy_dot_Some:
  "greedy_dot k taken s = Some v \<Longrightarrow> \<exists>p r. s = p @ r \<and> k (taken @ p) r = Some v"
proof (induction s arbitrary: taken)
  case Nil
  then show ?case by simp
next
  case (Cons c cs)
  show ?case
  proof (cases "c \<noteq> line_feed \<and> greedy_dot k (taken @ [c]) cs = Some v")
    case True
    with Cons.IH[of "taken @ [c]"] obtain p r where "cs = p @ r" "k ((taken @ [c]) @ p) r = Some v"
      by blast
    then have "c # cs = (c # p) @ r \<and> k (taken @ c # p) r = Some v" by simp
    then show ?thesis by blast
  next
    case False
    with Cons.prems have "k taken (c # cs) = Some v"
      by (auto split: if_splits option.splits)
    then have "c # cs = [] @ c # cs \<and> k (taken @ []) (c # cs) = Some v" by simp
    then show ?thesis by blast
  qed
qed

lemma greedy_dot_plus_split:
  assumes "p \<noteq> []" and "line_feed \<notin> set p" and "k p r = Some v"
    and "\<And>p' r'. p' \<noteq> [] \<Longrightarrow> r = p' @ r' \<Longrightarrow> line_feed \<notin> set p' \<Longrightarrow> k (p @ p') r' = None"
  shows "greedy_dot_plus k (p @ r) = Some v"
proof -
  from assms(1) obtain c cs where p: "p = c # cs" by (cases p) auto
  have "greedy_dot k [c] (cs @ r) = Some v"
  proof (rule greedy_dot_split)
    show "line_feed \<notin> set cs" using assms(2) p by simp
    show "k ([c] @ cs) r = Some v" using assms(3) p by simp
    show "k ([c] @ cs @ p') r' = None" if "p' \<noteq> []" "r = p' @ r'" "line_feed \<notin> set p'" for p' r'
      using assms(4)[OF that] p by simp
  qed
  with assms(2) p show ?thesis by (auto simp: greedy_dot_plus_def)
qed

lemma greedy_dot_plus_Some:
  assumes "greedy_dot_plus k s = Some v"
  shows "\<exists>p r. p \<noteq> [] \<and> s = p @ r \<and> k p r = Some v"
proof -
  from assms obtain c cs where s: "s = c # cs" and g: "greedy_dot k [c] cs = Some v"
    by (auto simp: greedy_dot_plus_def split: list.splits if_splits)
  from greedy_dot_Some[OF g] obtain p r where "cs = p @ r" "k ([c] @ p) r = Some v" by blast
  with s have "c # p \<noteq> [] \<and> s = (c # p) @ r \<and> k (c # p) r = Some v" by simp
  then show ?thesis by blast
qed

subsection \<open>Team names through the title\<close>

lemma vs_later_impossible:
  assumes "\<not> contains '' vs '' t2" and "\<not> starts_with ''vs '' t2"
    and "'' vs '' @ t2 = p' @ '' vs '' @ s4" and "p' \<noteq> []"
  shows False
proof -
  from assms(4) obtain a p1 where p': "p' = a # p1" by (cases p') auto
  with assms(3) have e1: "''vs '' @ t2 = p1 @ '' vs '' @ s4" by auto
  then obtain b p2 where p1: "p1 = b # p2" by (cases p1) auto
  with e1 have e2: "''s '' @ t2 = p2 @ '' vs '' @ s4" by auto
  then obtain c p3 where p2: "p2 = c # p3" by (cases p2) auto
  with e2 have e3: "'' '' @ t2 = p3 @ '' vs '' @ s4" by auto
  show False
  proof (cases p3)
    case Nil
    with e3 have "t2 = ''vs '' @ s4" by auto
    with assms(2) show False by (simp add: starts_with_iff)
  next
    case (Cons d p4)
    with e3 have "t2 = p4 @ '' vs '' @ s4" by auto
    with assms(1) show False unfolding contains_iff by blast
  qed
qed

lemma group2_all:
  assumes "t2 \<noteq> []" and "line_feed \<notin> set t2"
  shows "greedy_dot_plus (\<lambda>group2 s5. Some (g1, group2)) t2 = Some (g1, t2)"
  using greedy_dot_plus_split[of t2 "\<lambda>group2 s5. Some (g1, group2)" "[]" "(g1, t2)"] assms
  by simp

lemma match_vs_names:
  assumes "t1 \<noteq> []" and "line_feed \<notin> set t1" and "t2 \<noteq> []" and "line_feed \<notin> set t2"
    and "\<not> contains '' vs '' t2" and "\<not> starts_with ''vs '' t2"
  shows "match_vs (t1 @ '' vs '' @ t2) = Some (t1, t2)"
  unfolding match_vs_def
proof (rule greedy_dot_plus_split)
  show "t1 \<noteq> []" by fact
  show "line_feed \<notin> set t1" by fact
  show "(case literal '' vs '' ('' vs '' @ t2) of None \<Rightarrow> None
         | Some s4 \<Rightarrow> greedy_dot_plus (\<lambda>group2 s5. Some (t1, group2)) s4) = Some (t1, t2)"
    using group2_all[OF assms(3,4)] literal_Some_iff[of "'' vs ''" "'' vs '' @ t2" t2]
    by simp
  show "(case literal '' vs '' r' of None \<Rightarrow> None
         | Some s4 \<Rightarrow> greedy_dot_plus (\<lambda>group2 s5. Some (t1 @ p', group2)) s4) = None"
    if "p' \<noteq> []" "'' vs '' @ t2 = p' @ r'" "line_feed \<notin> set p'" for p' r'
  proof (cases "literal '' vs '' r'")
    case None
    then show ?thesis by simp
  next
    case (Some s4)
    then have "r' = '' vs '' @ s4" by (simp only: literal_Some_iff)
    with that(2) have "'' vs '' @ t2 = p' @ '' vs '' @ s4" by simp
    from vs_later_impossible[OF assms(5,6) this that(1)] show ?thesis ..
  qed
qed

lemma match_vs_Some:
  assumes "match_vs s2 = Some v"
  shows "\<exists>q s4. q \<noteq> [] \<and> s2 = q @ '' vs '' @ s4"
proof -
  from greedy_dot_plus_Some[OF assms[unfolded match_vs_def]]
  obtain q r where q: "q \<noteq> []" "s2 = q @ r"
    and k: "(case literal '' vs '' r of None \<Rightarrow> None
         | Some s4 \<Rightarrow> greedy_dot_plus (\<lambda>group2 s5. Some (q, group2)) s4) = Some v"
    by blast
  from k obtain s4 where "literal '' vs '' r = Some s4" by (cases "literal '' vs '' r") auto
  then have "r = '' vs '' @ s4" by (simp only: literal_Some_iff)
  with q show ?thesis by blast
qed

lemma dash_later_impossible:
  assumes "\<not> contains '' - '' t1" and "\<not> starts_with ''- '' t1"
    and "\<not> contains '' vs '' t2" and "\<not> starts_with ''vs '' t2"
    and "'' - '' @ t1 @ '' vs '' @ t2 = p' @ '' - '' @ q @ '' vs '' @ s4" and "p' \<noteq> []"
  shows False
proof -
  have key: False if "t1 @ '' vs '' @ t2 = u @ '' vs '' @ s4"
    and bad: "\<And>us. t1 \<noteq> u @ us" for u
  proof -
    from that(1) obtain us where
      "t1 = u @ us \<and> us @ '' vs '' @ t2 = '' vs '' @ s4 \<or> t1 @ us = u \<and> '' vs '' @ t2 = us @ '' vs '' @ s4"
      unfolding append_eq_append_conv2 by blast
    then show False
    proof
      assume "t1 = u @ us \<and> us @ '' vs '' @ t2 = '' vs '' @ s4"
      with bad show False by blast
    next
      assume *: "t1 @ us = u \<and> '' vs '' @ t2 = us @ '' vs '' @ s4"
      show False
      proof (cases "us = []")
        case True
        with * bad[of "[]"] show False by simp
      next
        case False
        from * have "'' vs '' @ t2 = us @ '' vs '' @ s4" by blast
        from vs_later_impossible[OF assms(3,4) this False] show False .
      qed
    qed
  qed
  from assms(6) obtain a p1 where p': "p' = a # p1" by (cases p') auto
  with assms(5) have e1: "''- '' @ t1 @ '' vs '' @ t2 = p1 @ '' - '' @ q @ '' vs '' @ s4" by auto
  then obtain b p2 where p1: "p1 = b # p2" by (cases p1) auto
  with e1 have e2: "'' '' @ t1 @ '' vs '' @ t2 = p2 @ '' - '' @ q @ '' vs '' @ s4" by auto
  show False
  proof (cases p2)
    case Nil
    with e2 have "t1 @ '' vs '' @ t2 = (''- '' @ q) @ '' vs '' @ s4" by auto
    then show False
    proof (rule key)
      fix us
      show "t1 \<noteq> (''- '' @ q) @ us"
        using assms(2) by (auto simp: starts_with_iff)
    qed
  next
    case (Cons c p3)
    with e2 have "t1 @ '' vs '' @ t2 = (p3 @ '' - '' @ q) @ '' vs '' @ s4" by auto
    then show False
    proof (rule key)
      fix us
      show "t1 \<noteq> (p3 @ '' - '' @ q) @ us"
        using assms(1) unfolding contains_iff by auto
    qed
  qed
qed

lemma re_match_title_names:
  assumes "line_feed \<notin> set P"
    and "t1 \<noteq> []" and "line_feed \<notin> set t1" and "t2 \<noteq> []" and "line_feed \<notin> set t2"
    and "\<not> contains '' - '' t1" and "\<not> starts_with ''- '' t1"
    and "\<not> contains '' vs '' t2" and "\<not> starts_with ''vs '' t2"
  shows "re_match_title (P @ '' - '' @ t1 @ '' vs '' @ t2) = Some (t1, t2)"
proof -
  have "greedy_dot (\<lambda>taken s1. case literal '' - '' s1 of None \<Rightarrow> None | Some s2 \<Rightarrow> match_vs s2)
          [] (P @ ('' - '' @ t1 @ '' vs '' @ t2)) = Some (t1, t2)"
  proof (rule greedy_dot_split)
    show "line_feed \<notin> set P" by fact
    have "literal '' - '' ('' - '' @ t1 @ '' vs '' @ t2) = Some (t1 @ '' vs '' @ t2)"
      by (simp only: literal_Some_iff)
    then show "(case literal '' - '' ('' - '' @ t1 @ '' vs '' @ t2) of None \<Rightarrow> None
           | Some s2 \<Rightarrow> match_vs s2) = Some (t1, t2)"
      using match_vs_names[OF assms(2,3,4,5,8,9)] by simp
    show "(case literal '' - '' r' of None \<Rightarrow> None | Some s2 \<Rightarrow> match_vs s2) = None"
      if "p' \<noteq> []" "'' - '' @ t1 @ '' vs '' @ t2 = p' @ r'" "line_feed \<notin> set p'" for p' r'
    proof (cases "literal '' - '' r'")
      case None
      then show ?thesis by simp
    next
      case (Some s2)
      then have r': "r' = '' - '' @ s2" by (simp only: literal_Some_iff)
      show ?thesis
      proof (cases "match_vs s2")
        case None
        with Some show ?thesis by simp
      next
        case (Some v)
        from match_vs_Some[OF this] obtain q s4 where "s2 = q @ '' vs '' @ s4" by blast
        with r' that(2) have "'' - '' @ t1 @ '' vs '' @ t2 = p' @ '' - '' @ q @ '' vs '' @ s4"
          by simp
        from dash_later_impossible[OF assms(6,7,8,9) this that(1)] show ?thesis ..
      qed
    qed
  qed
  then show ?thesis by (simp add: re_match_title_def)
qed

lemma digit_char_not_line_feed: "d < 10 \<Longrightarrow> digit_char d \<noteq> line_feed"
proof
  assume "d < 10" "digit_char d = line_feed"
  then have "of_char (char_of (48 + d)) = (of_char (CHR 0x0A) :: nat)"
    by (simp add: digit_char_def line_feed_def)
  with \<open>d < 10\<close> show False by simp
qed

lemma str_nat_no_line_feed: "line_feed \<notin> set (str_nat n)"
proof (induction n rule: str_nat.induct)
  case (1 n)
  show ?case
  proof (cases "n < 10")
    case True
    then show ?thesis
      using digit_char_not_line_feed[of n] by (subst str_nat.simps) auto
  next
    case False
    then show ?thesis
      using 1 digit_char_not_line_feed[of "n mod 10"] by (subst str_nat.simps) auto
  qed
qed

lemma str_int_no_line_feed: "line_feed \<notin> set (str_int i)"
  using str_nat_no_line_feed by (auto simp: str_int_def line_feed_def)

text \<open>
  C9 (as amended). For every row of the Matches sheet whose team names are not empty,
  hold no line feed and contain neither \<open>vs\<close> nor \<open>-\<close> between two spaces, whose first
  team name does not begin with \<open>-\<close> and a space, whose second team name does not begin
  with \<open>vs\<close> and a space, and whose matchday label holds no line feed: the export pattern,
  applied to the title that \<open>get_title\<close> gives the row, yields the first team name as
  group 1 and the second as group 2, whatever the matchday label (numeric or not) and the
  game number.
\<close>

theorem title_roundtrip:
  assumes "M_Team1_name row \<noteq> []" and "M_Team2_name row \<noteq> []"
    and "line_feed \<notin> set (M_Matchday row)"
    and "line_feed \<notin> set (M_Team1_name row)" and "line_feed \<notin> set (M_Team2_name row)"
    and "\<not> contains '' vs '' (M_Team1_name row)" and "\<not> contains '' - '' (M_Team1_name row)"
    and "\<not> contains '' vs '' (M_Team2_name row)" and "\<not> contains '' - '' (M_Team2_name row)"
    and "\<not> starts_with ''- '' (M_Team1_name row)" and "\<not> starts_with ''vs '' (M_Team2_name row)"
  shows "export_team_names (get_title row) = Inr (M_Team1_name row, M_Team2_name row)"
proof -
  let ?t1 = "M_Team1_name row" and ?t2 = "M_Team2_name row" and ?md = "M_Matchday row"
  have match: "re_match_title (P @ '' - '' @ ?t1 @ '' vs '' @ ?t2) = Some (?t1, ?t2)"
    if "line_feed \<notin> set P" for P
    using that assms(1,4,2,5,7,10,8,11) by (rule re_match_title_names)
  have md: "line_feed \<notin> set (''MD '' @ ?md)"
    using assms(3) by (simp add: line_feed_def)
  have nb: "line_feed \<notin> set (?md @ '' '' @ str_int (M_Game_number row))"
    using assms(3) str_int_no_line_feed[of "M_Game_number row"] by (simp add: line_feed_def)
  have "re_match_title (get_title row) = Some (?t1, ?t2)"
    using match[OF md] match[OF nb] match[OF assms(3)]
    by (simp add: get_title_def Let_def)
  then show ?thesis by (simp add: export_team_names_def)
qed

theorem title_roundtrip_witness:
  "M_Team1_name (title_row ''Final'' 2 ''A B'' ''C D'') \<noteq> [] \<and>
   \<not> contains '' - '' (M_Team1_name (title_row ''Final'' 2 ''A B'' ''C D'')) \<and>
   \<not> starts_with ''vs '' (M_Team2_name (title_row ''Final'' 2 ''A B'' ''C D'')) \<and>
   get_title (title_row ''Final'' 2 ''A B'' ''C D'') = ''Final 2 - A B vs C D'' \<and>
   export_team_names ''Final 2 - A B vs C D'' = Inr (''A B'', ''C D'')"
proof -
  let ?row = "title_row ''Final'' 2 ''A B'' ''C D''"
  have f: "M_Matchday ?row = ''Final''" "M_Game_number ?row = 2"
    "M_Team1_name ?row = ''A B''" "M_Team2_name ?row = ''C D''"
    by (simp_all add: title_row_def)
  have h1: "M_Team1_name ?row \<noteq> []" and h2: "M_Team2_name ?row \<noteq> []"
    and h3: "line_feed \<notin> set (M_Matchday ?row)"
    and h4: "line_feed \<notin> set (M_Team1_name ?row)" and h5: "line_feed \<notin> set (M_Team2_name ?row)"
    by (simp_all add: f line_feed_def)
  have h6: "\<not> contains '' vs '' (M_Team1_name ?row)" and h7: "\<not> contains '' - '' (M_Team1_name ?row)"
    and h8: "\<not> contains '' vs '' (M_Team2_name ?row)" and h9: "\<not> contains '' - '' (M_Team2_name ?row)"
    and h10: "\<not> starts_with ''- '' (M_Team1_name ?row)" and h11: "\<not> starts_with ''vs '' (M_Team2_name ?row)"
    by (simp_all add: f starts_with_def)
  have two: "str_int 2 = ''2''" by code_simp
  have t: "get_title ?row = ''Final 2 - A B vs C D''"
    by (simp add: get_title_def f isdigit_def two)
  from title_roundtrip [OF h1 h2 h3 h4 h5 h6 h7 h8 h9 h10 h11]
  have "export_team_names ''Final 2 - A B vs C D'' = Inr (''A B'', ''C D'')"
    by (simp add: t f)
  with h1 h7 h11 t show ?thesis by blast
qed

text \<open>
  The claim as first stated fails on team names that contain neither separator and yet
  form one with the spaces around them: with the first team named \<open>- A\<close> group 1 is
  \<open>A\<close>, and with the second team named \<open>vs B\<close> group 1 is \<open>A vs\<close> and group 2 is \<open>B\<close>.
\<close>

theorem title_roundtrip_counterexample:
  "\<not> contains '' vs '' ''- A'' \<and> \<not> contains '' - '' ''- A'' \<and>
   \<not> contains '' vs '' ''B'' \<and> \<not> contains '' - '' ''B'' \<and>
   get_title (title_row ''1'' 1 ''- A'' ''B'') = ''MD 1 - - A vs B'' \<and>
   export_team_names ''MD 1 - - A vs B'' = Inr (''A'', ''B'') \<and>
   \<not> contains '' vs '' ''A'' \<and> \<not> contains '' - '' ''A'' \<and>
   \<not> contains '' vs '' ''vs B'' \<and> \<not> contains '' - '' ''vs B'' \<and>
   get_title (title_row ''Final'' 1 ''A'' ''vs B'') = ''Final - A vs vs B'' \<and>
   export_team_names ''Final - A vs vs B'' = Inr (''A vs'', ''B'')"
  by (simp add: starts_with_def get_title_def title_row_def played_row_def isdigit_def
      export_team_names_def re_match_title_def match_vs_def greedy_dot_plus_def line_feed_def)

text \<open>
  An empty team name, and a line feed in a team name or in the matchday label, break the
  round trip as well: the pattern does not match, or group 2 stops at the line feed.
\<close>

lemma export_pattern_other_failures:
  "\<not> contains '' vs '' [] \<and> \<not> contains '' - '' [] \<and>
   export_team_names (get_title (title_row ''1'' 1 [] ''B'')) = Inl AttributeError \<and>
   \<not> contains '' vs '' [CHR ''B'', line_feed, CHR ''C''] \<and>
   \<not> contains '' - '' [CHR ''B'', line_feed, CHR ''C''] \<and>
   export_team_names (get_title (title_row ''1'' 1 ''A'' [CHR ''B'', line_feed, CHR ''C''])) =
     Inr (''A'', ''B'') \<and>
   export_team_names (get_title (title_row [CHR ''X'', line_feed, CHR ''Y''] 1 ''A'' ''B'')) =
     Inl AttributeError"
  by (simp add: starts_with_def get_title_def title_row_def played_row_def isdigit_def
      export_team_names_def re_match_title_def match_vs_def greedy_dot_plus_def line_feed_def)

end
